theory Spec2Isabelle
  imports Complex_Main "HOL-Library.Sublist" "HOL-Library.Multiset"
begin

text \<open>
  A shallow embedding of the person-removal core of the wallpaper application: the
  foreground scoring and the foreground/background separation
  (\<^verbatim>\<open>foreground-separation\<close>), the detection adapters (\<^verbatim>\<open>person-detection\<close>), the
  inpainting back-ends and their selector (\<^verbatim>\<open>background-inpainting\<close>), and the pipeline
  with its retry wrapper (\<^verbatim>\<open>auto-person-removal\<close>). Functions keep their source names;
  \<open>mask_id\<close> stands for the field \<^verbatim>\<open>id\<close> and \<open>size'\<close> for the factor \<^verbatim>\<open>size\<close>.
\<close>

section \<open>Data model\<close>

text \<open>
  JavaScript numbers that carry measurements (pixel coordinates, areas, confidences,
  scores) are modelled as \<^typ>\<open>real\<close>; numbers that carry counts (the number of people
  to keep, the retry budget, the attempt counter, a delay in milliseconds) are modelled as
  \<^typ>\<open>int\<close>, so that negative values stay representable. NaN, the infinities and the
  rounding of doubles have no counterpart: the scores are those of exact arithmetic. In the
  source a zero image diagonal or area, and magnitudes whose squares or products leave the
  range of doubles, give NaN or an infinity; every theorem about scores assumes positive
  image dimensions.
\<close>

type_synonym bbox = "real \<times> real \<times> real \<times> real"

record PersonMask =
  mask_id :: string
  mask :: string
  bbox :: bbox
  confidence :: real
  centerPoint :: "real \<times> real"
  area :: real

record DetectionResult =
  masks :: "PersonMask list"
  imageWidth :: real
  imageHeight :: real

record Factors =
  position :: real
  size' :: real
  clarity :: real
  centrality :: real
  orientation :: real

record ForegroundScore =
  personId :: string
  score :: real
  factors :: Factors

record SeparationResult =
  foregroundMasks :: "PersonMask list"
  backgroundMasks :: "PersonMask list"
  foregroundMask :: string
  backgroundMask :: string

section \<open>Foreground scoring\<close>

definition calculatePositionScore :: "PersonMask \<Rightarrow> real \<Rightarrow> real \<Rightarrow> real" where
  "calculatePositionScore person imgW imgH =
     (case bbox person of (x, y, w, h) \<Rightarrow>
        let centerX = x + w / 2;
            centerY = y + h / 2;
            imageCenterX = imgW / 2;
            imageCenterY = imgH / 2;
            distance = sqrt ((centerX - imageCenterX)\<^sup>2 + (centerY - imageCenterY)\<^sup>2);
            maxDistance = sqrt ((imgW / 2)\<^sup>2 + (imgH / 2)\<^sup>2);
            normalizedDistance = distance / maxDistance
        in max 0 (100 * exp (- 3 * normalizedDistance)))"

definition calculateSizeScore :: "PersonMask \<Rightarrow> real \<Rightarrow> real \<Rightarrow> real" where
  "calculateSizeScore person imgW imgH =
     (case bbox person of (x, y, w, h) \<Rightarrow>
        let personArea = w * h;
            imageArea = imgW * imgH;
            areaRatio = personArea / imageArea;
            minOptimalRatio = 0.05;
            maxOptimalRatio = 0.40
        in if areaRatio < minOptimalRatio then (areaRatio / minOptimalRatio) * 60
           else if areaRatio > maxOptimalRatio then
             (let excessRatio = (areaRatio - maxOptimalRatio) / (0.8 - maxOptimalRatio)
              in max 20 (100 * (1 - excessRatio)))
           else 100)"

definition calculateCentralityScore :: "PersonMask \<Rightarrow> real \<Rightarrow> real \<Rightarrow> real" where
  "calculateCentralityScore person imgW imgH =
     (case centerPoint person of (centerX, centerY) \<Rightarrow>
        let imageCenterX = imgW / 2;
            imageCenterY = imgH / 2;
            distance = sqrt ((centerX - imageCenterX)\<^sup>2 + (centerY - imageCenterY)\<^sup>2);
            maxDistance = sqrt ((imgW / 2)\<^sup>2 + (imgH / 2)\<^sup>2);
            normalizedDistance = distance / maxDistance
        in max 0 (100 * exp (- 2 * normalizedDistance\<^sup>2)))"

definition calculateOrientationScore :: "PersonMask \<Rightarrow> real \<Rightarrow> real \<Rightarrow> real" where
  "calculateOrientationScore person imgW imgH =
     (case bbox person of (x, y, w, h) \<Rightarrow>
        let centerX = x + w / 2;
            centerY = y + h / 2;
            isInForegroundArea = (centerY > imgH * 0.3);
            isInCenterHorizontal = (centerX > imgW * 0.2 \<and> centerX < imgW * 0.8);
            score0 = 50;
            score1 = (if isInForegroundArea then score0 + 30 else score0);
            score2 = (if isInCenterHorizontal then score1 + 20 else score1)
        in min 100 score2)"

definition calculateClarityScore :: "PersonMask \<Rightarrow> real" where
  "calculateClarityScore person =
     (let baseScore = 70;
          confidenceBonus = confidence person * 30
      in min 100 (baseScore + confidenceBonus))"

definition calculateForegroundScore :: "PersonMask \<Rightarrow> real \<Rightarrow> real \<Rightarrow> ForegroundScore" where
  "calculateForegroundScore person imgW imgH =
     (let positionScore = calculatePositionScore person imgW imgH;
          sizeScore = calculateSizeScore person imgW imgH;
          centralityScore = calculateCentralityScore person imgW imgH;
          orientationScore = calculateOrientationScore person imgW imgH;
          clarityScore = calculateClarityScore person;
          finalScore = positionScore * 0.30 + sizeScore * 0.25 + centralityScore * 0.20
                       + orientationScore * 0.15 + clarityScore * 0.10
      in \<lparr> personId = mask_id person,
           score = max 0 (min 100 finalScore),
           factors = \<lparr> position = positionScore, size' = sizeScore, clarity = clarityScore,
                       centrality = centralityScore, orientation = orientationScore \<rparr> \<rparr>)"

section \<open>Foreground/background separation\<close>

text \<open>
  \<^verbatim>\<open>scores.sort((a, b) => b.score - a.score)\<close>: a stable sort (ECMAScript 2019) into
  descending score order, i.e. a stable sort on the negated score.
\<close>

definition sortByScoreDesc :: "ForegroundScore list \<Rightarrow> ForegroundScore list" where
  "sortByScoreDesc scores = sort_key (\<lambda>s. - score s) scores"

text \<open>
  \<^verbatim>\<open>xs.slice(0, e)\<close> for an integral \<open>e\<close>: a negative end counts from the end of the
  array, and the end is clamped to the array.
\<close>

definition slice0 :: "'a list \<Rightarrow> int \<Rightarrow> 'a list" where
  "slice0 xs e =
     (let len = int (length xs);
          final = (if e < 0 then max (len + e) 0 else min e len)
      in take (nat final) xs)"

definition combineMasks :: "PersonMask list \<Rightarrow> string" where
  "combineMasks ms = (case ms of [] \<Rightarrow> [] | m # _ \<Rightarrow> mask m)"

definition separateForegroundBackground :: "DetectionResult \<Rightarrow> int \<Rightarrow> SeparationResult" where
  "separateForegroundBackground detectionResult targetForegroundCount =
     (if length (masks detectionResult) = 0 then
        \<lparr> foregroundMasks = [], backgroundMasks = [], foregroundMask = [], backgroundMask = [] \<rparr>
      else
        let scores = map (\<lambda>m. calculateForegroundScore m (imageWidth detectionResult)
                                 (imageHeight detectionResult)) (masks detectionResult);
            sorted = sortByScoreDesc scores;
            foregroundCount = min targetForegroundCount (int (length sorted));
            foregroundIds = map personId (slice0 sorted foregroundCount);
            fgMasks = filter (\<lambda>m. mask_id m \<in> set foregroundIds) (masks detectionResult);
            bgMasks = filter (\<lambda>m. mask_id m \<notin> set foregroundIds) (masks detectionResult)
        in \<lparr> foregroundMasks = fgMasks, backgroundMasks = bgMasks,
             foregroundMask = combineMasks fgMasks, backgroundMask = combineMasks bgMasks \<rparr>)"

definition generateInpaintingMask :: "PersonMask list \<Rightarrow> real \<Rightarrow> real \<Rightarrow> string" where
  "generateInpaintingMask bgMasks imgW imgH =
     (case bgMasks of [] \<Rightarrow> [] | m # _ \<Rightarrow> mask m)"

text \<open>
  The identifiers that \<open>separateForegroundBackground\<close> selects as foreground (its local
  \<^verbatim>\<open>foregroundIds\<close>), named so that lemmas can refer to them.
\<close>

definition foregroundIdsOf :: "DetectionResult \<Rightarrow> int \<Rightarrow> string list" where
  "foregroundIdsOf d t =
     map personId (slice0 (sortByScoreDesc (map (\<lambda>m. calculateForegroundScore m (imageWidth d)
        (imageHeight d)) (masks d))) (min t (int (length (masks d)))))"

section \<open>External services and effects\<close>

text \<open>
  A thrown JavaScript value: an \<^verbatim>\<open>Error\<close> object with its message, or any other value,
  kept as what \<^verbatim>\<open>String(value)\<close> yields. \<open>message_of\<close> is the expression
  \<^verbatim>\<open>error instanceof Error ? error.message : String(error)\<close>.
\<close>

datatype thrown = Error string | Thrown string

definition message_of :: "thrown \<Rightarrow> string" where
  "message_of e = (case e of Error m \<Rightarrow> m | Thrown v \<Rightarrow> v)"

text \<open>The six hosted models that the code reaches through \<^verbatim>\<open>replicate.run\<close>.\<close>

datatype model = SAM2 | YOLOv8 | SAM | StabilityInpainting | RunwayInpainting | FluxKontext

text \<open>
  An element of a detector's output array, read the way the code reads it: each of
  \<^verbatim>\<open>item.bbox\<close>, \<^verbatim>\<open>item.mask\<close> and \<^verbatim>\<open>item.confidence\<close> may be absent.
\<close>

record raw_item =
  item_bbox :: "bbox option"
  item_mask :: "string option"
  item_confidence :: "real option"

text \<open>
  The Replicate client and the clock are outside the program. They are parameters: the
  outside world is a state of an arbitrary type \<open>'w\<close>, \<open>now\<close> reads the clock
  (\<^verbatim>\<open>Date.now()\<close>), and each call site of \<^verbatim>\<open>replicate.run\<close> is a function on the world
  that either throws or returns the output at the type the call site reads it:
  \<open>None\<close> stands for an output that is null or not an array (for \<open>run_sam\<close>: an
  output without a \<^verbatim>\<open>mask\<close> property).
\<close>

record 'w env =
  now :: "'w \<Rightarrow> int"
  run_sam2 :: "string \<Rightarrow> 'w \<Rightarrow> (thrown + raw_item list option) \<times> 'w"
  run_yolo :: "string \<Rightarrow> 'w \<Rightarrow> (thrown + raw_item list option) \<times> 'w"
  run_sam :: "string \<Rightarrow> bbox \<Rightarrow> 'w \<Rightarrow> (thrown + string option) \<times> 'w"
  run_inpaint :: "model \<Rightarrow> string \<Rightarrow> string \<Rightarrow> string \<Rightarrow> 'w \<Rightarrow> (thrown + string list option) \<times> 'w"

text \<open>
  The state threaded through the program: the outside world and the log of the models
  invoked so far, oldest first. Console output is not modelled.
\<close>

record 'w state =
  world :: 'w
  calls :: "model list"

definition replicate_run :: "model \<Rightarrow> ('w \<Rightarrow> 'a \<times> 'w) \<Rightarrow> 'w state \<Rightarrow> 'a \<times> 'w state" where
  "replicate_run m f s =
     (case f (world s) of (r, w') \<Rightarrow> (r, \<lparr> world = w', calls = calls s @ [m] \<rparr>))"

section \<open>Detection adapters\<close>

text \<open>The decimal numeral of an array index, for the template \<^verbatim>\<open>`person_${index}`\<close>.\<close>

fun string_of_nat :: "nat \<Rightarrow> string" where
  "string_of_nat n =
     (if n < 10 then [''0123456789'' ! n]
      else string_of_nat (n div 10) @ [''0123456789'' ! (n mod 10)])"

declare string_of_nat.simps [simp del]

text \<open>
  The object literal both detectors build for one person. \<^verbatim>\<open>x.confidence || 0.8\<close>
  replaces an absent confidence and also the falsy confidence \<open>0\<close>.
\<close>

definition personMask :: "nat \<Rightarrow> bbox \<Rightarrow> string \<Rightarrow> real option \<Rightarrow> PersonMask" where
  "personMask index bb m conf =
     (case bb of (b0, b1, b2, b3) \<Rightarrow>
        let centerX = b0 + b2 / 2;
            centerY = b1 + b3 / 2;
            area' = b2 * b3
        in \<lparr> mask_id = ''person_'' @ string_of_nat index,
             mask = m,
             bbox = bb,
             confidence = (case conf of None \<Rightarrow> 0.8 | Some c \<Rightarrow> if c = 0 then 0.8 else c),
             centerPoint = (centerX, centerY),
             area = area' \<rparr>)"

definition bboxOrDefault :: "raw_item \<Rightarrow> bbox" where
  "bboxOrDefault item = (case item_bbox item of None \<Rightarrow> (0, 0, 100, 100) | Some b \<Rightarrow> b)"

definition detectPeopleInImage ::
  "'w env \<Rightarrow> string \<Rightarrow> 'w state \<Rightarrow> (thrown + DetectionResult) \<times> 'w state" where
  "detectPeopleInImage env imageUrl s =
     (case replicate_run SAM2 (run_sam2 env imageUrl) s of
        (Inl err, s1) \<Rightarrow>
          (Inl (Error (''Failed to detect people: '' @ message_of err)), s1)
      | (Inr None, s1) \<Rightarrow>
          (Inl (Error (''Failed to detect people: '' @ ''SAM-2 API did not return valid output'')), s1)
      | (Inr (Some output), s1) \<Rightarrow>
          let ms = map (\<lambda>(index, item).
                     personMask index (bboxOrDefault item)
                       (case item_mask item of None \<Rightarrow> [] | Some m \<Rightarrow> m)
                       (item_confidence item))
                   (enumerate 0 output);
              filteredMasks = filter (\<lambda>m. confidence m > 0.5) ms
          in (Inr \<lparr> masks = filteredMasks, imageWidth = 1024, imageHeight = 1024 \<rparr>, s1))"

text \<open>
  The loop of \<open>detectPeopleWithYOLO\<close> over the boxes: a refinement call that throws leaves
  the loop; a refinement without a truthy \<^verbatim>\<open>mask\<close> skips the box.
\<close>

fun yoloLoop ::
  "'w env \<Rightarrow> string \<Rightarrow> nat \<Rightarrow> raw_item list \<Rightarrow> PersonMask list \<Rightarrow> 'w state
     \<Rightarrow> (thrown + PersonMask list) \<times> 'w state" where
  "yoloLoop env imageUrl i [] acc s = (Inr acc, s)"
| "yoloLoop env imageUrl i (detection # rest) acc s =
     (case replicate_run SAM (run_sam env imageUrl (bboxOrDefault detection)) s of
        (Inl err, s1) \<Rightarrow> (Inl err, s1)
      | (Inr samOutput, s1) \<Rightarrow>
          (case samOutput of
             None \<Rightarrow> yoloLoop env imageUrl (Suc i) rest acc s1
           | Some m \<Rightarrow>
               if m = [] then yoloLoop env imageUrl (Suc i) rest acc s1
               else yoloLoop env imageUrl (Suc i) rest
                      (acc @ [personMask i (bboxOrDefault detection) m (item_confidence detection)])
                      s1))"

definition detectPeopleWithYOLO ::
  "'w env \<Rightarrow> string \<Rightarrow> 'w state \<Rightarrow> (thrown + DetectionResult) \<times> 'w state" where
  "detectPeopleWithYOLO env imageUrl s =
     (case replicate_run YOLOv8 (run_yolo env imageUrl) s of
        (Inl err, s1) \<Rightarrow>
          (Inl (Error (''Failed to detect people with YOLO + SAM: '' @ message_of err)), s1)
      | (Inr None, s1) \<Rightarrow>
          (Inl (Error (''Failed to detect people with YOLO + SAM: ''
                       @ ''YOLO API did not return valid output'')), s1)
      | (Inr (Some yoloOutput), s1) \<Rightarrow>
          (case yoloLoop env imageUrl 0 yoloOutput [] s1 of
             (Inl err, s2) \<Rightarrow>
               (Inl (Error (''Failed to detect people with YOLO + SAM: '' @ message_of err)), s2)
           | (Inr ms, s2) \<Rightarrow>
               (Inr \<lparr> masks = ms, imageWidth = 1024, imageHeight = 1024 \<rparr>, s2)))"

section \<open>Inpainting back-ends and their selector\<close>

record InpaintingResult =
  ir_resultUrl :: string
  ir_processingTime :: int
  ir_modelUsed :: string

text \<open>
  The three back-end functions share one body and differ in the model they run, the
  name used in their error messages and the \<^verbatim>\<open>modelUsed\<close> they report. A thrown client
  error, and an output that is null, not an array or empty, are rethrown wrapped.
\<close>

definition inpaintVia ::
  "model \<Rightarrow> string \<Rightarrow> string \<Rightarrow> 'w env \<Rightarrow> string \<Rightarrow> string \<Rightarrow> string \<Rightarrow> 'w state
     \<Rightarrow> (thrown + InpaintingResult) \<times> 'w state" where
  "inpaintVia m label used env imageUrl maskUrl prompt s =
     (let startTime = now env (world s)
      in case replicate_run m (run_inpaint env m imageUrl maskUrl prompt) s of
           (Inl err, s1) \<Rightarrow>
             (Inl (Error (''Failed to inpaint with '' @ label @ '': '' @ message_of err)), s1)
         | (Inr output, s1) \<Rightarrow>
             (case output of
                Some (resultUrl # _) \<Rightarrow>
                  (Inr \<lparr> ir_resultUrl = resultUrl,
                         ir_processingTime = now env (world s1) - startTime,
                         ir_modelUsed = used \<rparr>, s1)
              | _ \<Rightarrow>
                  (Inl (Error (''Failed to inpaint with '' @ label @ '': '' @ label
                               @ '' inpainting did not return valid output'')), s1)))"

definition inpaintWithStabilityAI ::
  "'w env \<Rightarrow> string \<Rightarrow> string \<Rightarrow> string \<Rightarrow> 'w state \<Rightarrow> (thrown + InpaintingResult) \<times> 'w state" where
  "inpaintWithStabilityAI =
     inpaintVia StabilityInpainting ''Stability AI'' ''stability-ai/stable-diffusion-inpainting''"

definition inpaintWithRunwayML ::
  "'w env \<Rightarrow> string \<Rightarrow> string \<Rightarrow> string \<Rightarrow> 'w state \<Rightarrow> (thrown + InpaintingResult) \<times> 'w state" where
  "inpaintWithRunwayML =
     inpaintVia RunwayInpainting ''RunwayML'' ''runwayml/stable-diffusion-inpainting''"

definition inpaintWithFLUX ::
  "'w env \<Rightarrow> string \<Rightarrow> string \<Rightarrow> string \<Rightarrow> 'w state \<Rightarrow> (thrown + InpaintingResult) \<times> 'w state" where
  "inpaintWithFLUX =
     inpaintVia FluxKontext ''FLUX'' ''black-forest-labs/flux-kontext-dev''"

text \<open>The array \<^verbatim>\<open>models\<close> of \<open>smartInpainting\<close>, in its order.\<close>

definition models ::
  "(string \<times> ('w env \<Rightarrow> string \<Rightarrow> string \<Rightarrow> string \<Rightarrow> 'w state
       \<Rightarrow> (thrown + InpaintingResult) \<times> 'w state)) list" where
  "models = [(''stability'', inpaintWithStabilityAI),
             (''runwayml'', inpaintWithRunwayML),
             (''flux'', inpaintWithFLUX)]"

text \<open>The \<^verbatim>\<open>for (const model of models)\<close> loop and the \<^verbatim>\<open>throw\<close> after it.\<close>

fun tryModels ::
  "(string \<times> ('w env \<Rightarrow> string \<Rightarrow> string \<Rightarrow> string \<Rightarrow> 'w state
       \<Rightarrow> (thrown + InpaintingResult) \<times> 'w state)) list
     \<Rightarrow> 'w env \<Rightarrow> string \<Rightarrow> string \<Rightarrow> string \<Rightarrow> 'w state
     \<Rightarrow> (thrown + InpaintingResult) \<times> 'w state" where
  "tryModels [] env imageUrl maskUrl prompt s =
     (Inl (Error ''All inpainting models failed''), s)"
| "tryModels (model # rest) env imageUrl maskUrl prompt s =
     (case snd model env imageUrl maskUrl prompt s of
        (Inr result, s1) \<Rightarrow> (Inr result, s1)
      | (Inl err, s1) \<Rightarrow> tryModels rest env imageUrl maskUrl prompt s1)"

text \<open>
  The \<^verbatim>\<open>switch\<close> on the preferred model's name: \<open>None\<close> is the \<^verbatim>\<open>default\<close> branch,
  which only logs.
\<close>

definition preferredAttempt ::
  "string \<Rightarrow> 'w env \<Rightarrow> string \<Rightarrow> string \<Rightarrow> string \<Rightarrow> 'w state
     \<Rightarrow> ((thrown + InpaintingResult) \<times> 'w state) option" where
  "preferredAttempt preferredModel env imageUrl maskUrl prompt s =
     (if preferredModel = ''stability'' then Some (inpaintWithStabilityAI env imageUrl maskUrl prompt s)
      else if preferredModel = ''runwayml'' then Some (inpaintWithRunwayML env imageUrl maskUrl prompt s)
      else if preferredModel = ''flux'' then Some (inpaintWithFLUX env imageUrl maskUrl prompt s)
      else None)"

text \<open>
  \<open>prompt\<close> and \<open>preferredModel\<close> are optional parameters: an absent prompt takes the
  default text, and \<^verbatim>\<open>if (preferredModel)\<close> is false for an absent and for an empty name.
\<close>

definition promptOrDefault :: "string option \<Rightarrow> string" where
  "promptOrDefault prompt' =
     (case prompt' of None \<Rightarrow> ''natural background, seamless, high quality'' | Some p \<Rightarrow> p)"

definition smartInpainting ::
  "'w env \<Rightarrow> string \<Rightarrow> string \<Rightarrow> string option \<Rightarrow> string option \<Rightarrow> 'w state
     \<Rightarrow> (thrown + InpaintingResult) \<times> 'w state" where
  "smartInpainting env imageUrl maskUrl prompt' preferredModel s =
     (let prompt = promptOrDefault prompt';
          preferred = (case preferredModel of None \<Rightarrow> None
                       | Some pm \<Rightarrow> if pm = [] then None
                                    else preferredAttempt pm env imageUrl maskUrl prompt s)
      in case preferred of
           Some (Inr result, s1) \<Rightarrow> (Inr result, s1)
         | Some (Inl err, s1) \<Rightarrow> tryModels models env imageUrl maskUrl prompt s1
         | None \<Rightarrow> tryModels models env imageUrl maskUrl prompt s)"

text \<open>\<^verbatim>\<open>s.includes(sub)\<close> on strings.\<close>

fun includesStr :: "string \<Rightarrow> string \<Rightarrow> bool" where
  "includesStr [] sub = (sub = [])"
| "includesStr (c # cs) sub = (prefix sub (c # cs) \<or> includesStr cs sub)"

definition generateOptimizedPrompt :: "string option \<Rightarrow> string option \<Rightarrow> string" where
  "generateOptimizedPrompt originalPrompt imageContext =
     (let basePrompt = (case originalPrompt of
                          None \<Rightarrow> ''natural background, seamless, high quality''
                        | Some p \<Rightarrow> if p = [] then ''natural background, seamless, high quality''
                                    else p);
          optimizedPrompt =
            (case imageContext of
               None \<Rightarrow> basePrompt
             | Some c \<Rightarrow>
                 if c = [] then basePrompt
                 else if includesStr c ''outdoor'' \<or> includesStr c ''nature'' then
                   basePrompt @ '', outdoor, natural lighting, environmental context''
                 else if includesStr c ''indoor'' \<or> includesStr c ''room'' then
                   basePrompt @ '', indoor, architectural, room context''
                 else basePrompt)
      in optimizedPrompt @ '', professional photography, high resolution, detailed'')"

definition validateInpaintingResult :: "string \<Rightarrow> string \<Rightarrow> string \<Rightarrow> bool" where
  "validateInpaintingResult resultUrl originalImageUrl maskUrl = True"

section \<open>Pipeline orchestrator\<close>

record Details =
  peopleDetected :: int
  foregroundPeople :: int
  backgroundPeople :: int
  modelUsed :: string
  inpaintingModel :: string

record PersonRemovalResult =
  success :: bool
  resultUrl :: "string option"
  processingTime :: int
  details :: Details
  error :: "string option"

record PersonRemovalOptions =
  targetForegroundCount :: "int option"
  preferredInpaintingModel :: "string option"
  customPrompt :: "string option"
  fallbackToYOLO :: "bool option"
  maxRetries :: "int option"

text \<open>
  The defaults of the destructuring \<^verbatim>\<open>const { targetForegroundCount = 1, ...,
  fallbackToYOLO = true, maxRetries = 2 } = options\<close>.
\<close>

definition optTarget :: "PersonRemovalOptions \<Rightarrow> int" where
  "optTarget options = (case targetForegroundCount options of None \<Rightarrow> 1 | Some n \<Rightarrow> n)"

definition optFallback :: "PersonRemovalOptions \<Rightarrow> bool" where
  "optFallback options = (case fallbackToYOLO options of None \<Rightarrow> True | Some b \<Rightarrow> b)"

definition optMaxRetries :: "PersonRemovalOptions \<Rightarrow> int" where
  "optMaxRetries options = (case maxRetries options of None \<Rightarrow> 2 | Some n \<Rightarrow> n)"

text \<open>
  The failure literal that the source writes out four times: no result URL, all counts
  zero, both model names \<^verbatim>\<open>"none"\<close>, and the given processing time and error text.
\<close>

definition failureResult :: "int \<Rightarrow> string \<Rightarrow> PersonRemovalResult" where
  "failureResult t msg =
     \<lparr> success = False, resultUrl = None, processingTime = t,
       details = \<lparr> peopleDetected = 0, foregroundPeople = 0, backgroundPeople = 0,
                   modelUsed = ''none'', inpaintingModel = ''none'' \<rparr>,
       error = Some msg \<rparr>"

text \<open>Step 1 of the pipeline: the primary detector, and the fallback inside its \<^verbatim>\<open>catch\<close>.\<close>

definition detectionStage ::
  "'w env \<Rightarrow> string \<Rightarrow> bool \<Rightarrow> 'w state \<Rightarrow> (thrown + DetectionResult) \<times> 'w state" where
  "detectionStage env imageUrl fallback s =
     (case detectPeopleInImage env imageUrl s of
        (Inr detectionResult, s1) \<Rightarrow> (Inr detectionResult, s1)
      | (Inl err, s1) \<Rightarrow>
          if fallback then
            (case detectPeopleWithYOLO env imageUrl s1 of
               (Inr detectionResult, s2) \<Rightarrow> (Inr detectionResult, s2)
             | (Inl yoloErr, s2) \<Rightarrow>
                 (Inl (Error (''Both SAM-2 and YOLO detection failed: '' @ message_of err)), s2))
          else (Inl err, s1))"

text \<open>The body of the \<^verbatim>\<open>try\<close> block: \<open>Inl\<close> is a value thrown inside it.\<close>

definition pipelineBody ::
  "'w env \<Rightarrow> string \<Rightarrow> PersonRemovalOptions \<Rightarrow> int \<Rightarrow> 'w state
     \<Rightarrow> (thrown + PersonRemovalResult) \<times> 'w state" where
  "pipelineBody env imageUrl options startTime s =
     (let target = optTarget options;
          fallback = optFallback options
      in case detectionStage env imageUrl fallback s of
           (Inl err, s1) \<Rightarrow> (Inl err, s1)
         | (Inr detectionResult, s1) \<Rightarrow>
             if length (masks detectionResult) = 0 then
               (Inr (failureResult (now env (world s1) - startTime)
                       ''No people detected in the image''), s1)
             else
               let separationResult = separateForegroundBackground detectionResult target
               in if length (backgroundMasks separationResult) = 0 then
                    (Inr \<lparr> success = True, resultUrl = Some imageUrl,
                           processingTime = now env (world s1) - startTime,
                           details = \<lparr> peopleDetected = int (length (masks detectionResult)),
                                       foregroundPeople =
                                         int (length (foregroundMasks separationResult)),
                                       backgroundPeople = 0,
                                       modelUsed = ''SAM-2/YOLO'',
                                       inpaintingModel = ''none'' \<rparr>,
                           error = None \<rparr>, s1)
                  else
                    let inpaintingMask =
                          generateInpaintingMask (backgroundMasks separationResult)
                            (imageWidth detectionResult) (imageHeight detectionResult)
                    in if inpaintingMask = [] then
                         (Inl (Error ''Failed to generate inpainting mask''), s1)
                       else
                         let optimizedPrompt =
                               generateOptimizedPrompt (customPrompt options) (Some ''outdoor'')
                         in (case smartInpainting env imageUrl inpaintingMask (Some optimizedPrompt)
                                   (preferredInpaintingModel options) s1 of
                              (Inl err, s2) \<Rightarrow> (Inl err, s2)
                            | (Inr inpaintingResult, s2) \<Rightarrow>
                                if \<not> validateInpaintingResult (ir_resultUrl inpaintingResult)
                                       imageUrl inpaintingMask then
                                  (Inl (Error ''Inpainting result validation failed''), s2)
                                else
                                  (Inr \<lparr> success = True,
                                         resultUrl = Some (ir_resultUrl inpaintingResult),
                                         processingTime = now env (world s2) - startTime,
                                         details =
                                           \<lparr> peopleDetected = int (length (masks detectionResult)),
                                             foregroundPeople =
                                               int (length (foregroundMasks separationResult)),
                                             backgroundPeople =
                                               int (length (backgroundMasks separationResult)),
                                             modelUsed = ''SAM-2/YOLO'',
                                             inpaintingModel = ir_modelUsed inpaintingResult \<rparr>,
                                         error = None \<rparr>, s2)))"

text \<open>
  \<open>autoRemoveBackgroundPeople\<close>: the \<^verbatim>\<open>try\<close> block and its \<^verbatim>\<open>catch\<close>. The result type
  keeps a place for a value that would escape the function, as its caller's own
  \<^verbatim>\<open>try\<close> expects.
\<close>

definition autoRemoveBackgroundPeople ::
  "'w env \<Rightarrow> string \<Rightarrow> PersonRemovalOptions \<Rightarrow> 'w state
     \<Rightarrow> (thrown + PersonRemovalResult) \<times> 'w state" where
  "autoRemoveBackgroundPeople env imageUrl options s =
     (let startTime = now env (world s)
      in case pipelineBody env imageUrl options startTime s of
           (Inr result, s1) \<Rightarrow> (Inr result, s1)
         | (Inl err, s1) \<Rightarrow>
             (Inr (failureResult (now env (world s1) - startTime) (message_of err)), s1))"

section \<open>Retry wrapper\<close>

text \<open>
  What the wrapper does besides computing: it invokes the pipeline (\<open>Attempt\<close>, with the
  value of the loop counter) and it waits on a timer (\<open>Wait\<close>, in milliseconds).
\<close>

datatype event = Attempt int | Wait int

text \<open>
  The \<^verbatim>\<open>for\<close> loop of \<open>autoRemoveBackgroundPeopleWithRetry\<close> and the \<^verbatim>\<open>return\<close> after
  it, over any attempt \<open>run\<close> that may return a result or throw; \<open>tr\<close> collects the
  events so far.
\<close>

function attemptLoop ::
  "('s \<Rightarrow> (thrown + PersonRemovalResult) \<times> 's) \<Rightarrow> int \<Rightarrow> int \<Rightarrow> event list \<Rightarrow> 's
     \<Rightarrow> PersonRemovalResult \<times> event list \<times> 's" where
  "attemptLoop run maxR attempt tr s =
     (if attempt \<le> maxR then
        (case run s of
           (Inr result, s1) \<Rightarrow>
             if success result then (result, tr @ [Attempt attempt], s1)
             else if attempt = maxR then (result, tr @ [Attempt attempt], s1)
             else
               let delay = min (1000 * 2 ^ nat (attempt - 1)) 5000
               in attemptLoop run maxR (attempt + 1) (tr @ [Attempt attempt, Wait delay]) s1
         | (Inl err, s1) \<Rightarrow>
             if attempt = maxR then
               (failureResult 0 (message_of err), tr @ [Attempt attempt], s1)
             else
               let delay = min (1000 * 2 ^ nat (attempt - 1)) 5000
               in attemptLoop run maxR (attempt + 1) (tr @ [Attempt attempt, Wait delay]) s1)
      else (failureResult 0 ''Max retries exceeded'', tr, s))"
  by pat_completeness auto
termination
  by (relation "measure (\<lambda>(run, maxR, attempt, tr, s). nat (maxR + 1 - attempt))") auto

declare attemptLoop.simps [simp del]

definition autoRemoveBackgroundPeopleWithRetry ::
  "'w env \<Rightarrow> string \<Rightarrow> PersonRemovalOptions \<Rightarrow> 'w state
     \<Rightarrow> PersonRemovalResult \<times> event list \<times> 'w state" where
  "autoRemoveBackgroundPeopleWithRetry env imageUrl options s =
     (let maxR = optMaxRetries options
      in attemptLoop (autoRemoveBackgroundPeople env imageUrl options) maxR 1 [] s)"

section \<open>Notions used to state the properties\<close>

text \<open>An attempt of the pipeline fails when it throws or returns \<^verbatim>\<open>success: false\<close>.\<close>

definition failed :: "thrown + PersonRemovalResult \<Rightarrow> bool" where
  "failed x = (case x of Inl _ \<Rightarrow> True | Inr r \<Rightarrow> \<not> success r)"

text \<open>
  What the retry wrapper returns for a failed last attempt: the attempt's own result, or
  the failure literal built in the wrapper's \<^verbatim>\<open>catch\<close> from the caught value.
\<close>

definition outcome :: "thrown + PersonRemovalResult \<Rightarrow> PersonRemovalResult" where
  "outcome x = (case x of Inr r \<Rightarrow> r | Inl e \<Rightarrow> failureResult 0 (message_of e))"

text \<open>The state reached after \<open>n\<close> consecutive runs of an attempt.\<close>

primrec stateAfter :: "('s \<Rightarrow> 'a \<times> 's) \<Rightarrow> nat \<Rightarrow> 's \<Rightarrow> 's" where
  "stateAfter run 0 s = s"
| "stateAfter run (Suc n) s = stateAfter run n (snd (run s))"

text \<open>The attempt numbers of a trace, in order.\<close>

fun attemptsOf :: "event list \<Rightarrow> int list" where
  "attemptsOf [] = []"
| "attemptsOf (Attempt k # es) = k # attemptsOf es"
| "attemptsOf (Wait d # es) = attemptsOf es"

text \<open>
  The backoff schedule as the specification words it: before each attempt \<open>k\<close> from \<open>a\<close>
  to \<open>b\<close>, a wait of \<open>min(1000 * 2^(k-2), 5000)\<close> milliseconds.
\<close>

definition backoffSchedule :: "int \<Rightarrow> int \<Rightarrow> event list" where
  "backoffSchedule a b =
     concat (map (\<lambda>k. [Wait (min (1000 * 2 ^ nat (k - 2)) 5000), Attempt k]) [a..b])"

fun isInpaintingModel :: "model \<Rightarrow> bool" where
  "isInpaintingModel StabilityInpainting = True"
| "isInpaintingModel RunwayInpainting = True"
| "isInpaintingModel FluxKontext = True"
| "isInpaintingModel _ = False"

text \<open>The model behind each name that the \<^verbatim>\<open>switch\<close> of \<open>smartInpainting\<close> knows.\<close>

definition modelOfName :: "string \<Rightarrow> model" where
  "modelOfName name =
     (if name = ''stability'' then StabilityInpainting
      else if name = ''runwayml'' then RunwayInpainting
      else FluxKontext)"

text \<open>
  A concrete outside world for closed examples: no state, a clock that stands still, and
  services that answer every call with one fixed response each.
\<close>

definition constEnv ::
  "(thrown + raw_item list option) \<Rightarrow> (thrown + raw_item list option)
     \<Rightarrow> (thrown + string option) \<Rightarrow> (thrown + string list option) \<Rightarrow> unit env" where
  "constEnv sam2 yolo sam inp =
     \<lparr> now = (\<lambda>_. 0),
       run_sam2 = (\<lambda>_ w. (sam2, w)),
       run_yolo = (\<lambda>_ w. (yolo, w)),
       run_sam = (\<lambda>_ _ w. (sam, w)),
       run_inpaint = (\<lambda>_ _ _ _ w. (inp, w)) \<rparr>"

text \<open>The world in which every service call throws.\<close>

definition offlineEnv :: "unit env" where
  "offlineEnv =
     constEnv (Inl (Thrown ''offline'')) (Inl (Thrown ''offline''))
       (Inl (Thrown ''offline'')) (Inl (Thrown ''offline''))"

text \<open>
  One detected person, as a detector reports it; the world in which the primary detector
  reports that person; and the world in which the primary detector throws while the box
  detector reports that person and the refiner returns a mask for it. In both worlds
  every inpainting call throws.
\<close>

definition onePersonItem :: raw_item where
  "onePersonItem =
     \<lparr> item_bbox = Some (300, 250, 400, 500), item_mask = Some ''maskA'',
       item_confidence = Some 0.9 \<rparr>"

definition primaryEnv :: "unit env" where
  "primaryEnv =
     constEnv (Inr (Some [onePersonItem])) (Inl (Thrown ''offline''))
       (Inl (Thrown ''offline'')) (Inl (Thrown ''offline''))"

definition fallbackEnv :: "unit env" where
  "fallbackEnv =
     constEnv (Inl (Thrown ''offline'')) (Inr (Some [onePersonItem]))
       (Inr (Some ''maskA'')) (Inl (Thrown ''offline''))"

text \<open>
  The world of \<open>fallbackEnv\<close> in which the refiner returns an output without a mask.
\<close>

definition unrefinedEnv :: "unit env" where
  "unrefinedEnv =
     constEnv (Inl (Thrown ''offline'')) (Inr (Some [onePersonItem]))
       (Inr None) (Inl (Thrown ''offline''))"

definition initialState :: "unit state" where
  "initialState = \<lparr> world = (), calls = [] \<rparr>"

text \<open>
  Two people in a 1000 x 1000 image: one whose box is centred on the image centre and
  covers 20% of the image, one whose box is centred on the bottom-right corner and covers
  2% of it, with the mask reference \<open>m\<close>.
\<close>

definition centeredPerson :: PersonMask where
  "centeredPerson =
     \<lparr> mask_id = ''person_0'', mask = ''maskA'', bbox = (300, 250, 400, 500), confidence = 0.9,
       centerPoint = (500, 500), area = 200000 \<rparr>"

definition cornerPerson :: "string \<Rightarrow> PersonMask" where
  "cornerPerson m =
     \<lparr> mask_id = ''person_1'', mask = m, bbox = (950, 900, 100, 200), confidence = 0.9,
       centerPoint = (1000, 1000), area = 20000 \<rparr>"

definition scenarioB :: "string \<Rightarrow> DetectionResult" where
  "scenarioB m =
     \<lparr> masks = [centeredPerson, cornerPerson m], imageWidth = 1000, imageHeight = 1000 \<rparr>"

definition defaultOptions :: PersonRemovalOptions where
  "defaultOptions =
     \<lparr> targetForegroundCount = None, preferredInpaintingModel = None, customPrompt = None,
       fallbackToYOLO = None, maxRetries = None \<rparr>"

section \<open>Lemmas about scoring\<close>

lemma position_range:
  "0 \<le> calculatePositionScore p W H \<and> calculatePositionScore p W H \<le> 100"
proof -
  obtain x y w h where b: "bbox p = (x, y, w, h)" by (cases "bbox p") auto
  define nd where "nd = sqrt ((x + w / 2 - W / 2)\<^sup>2 + (y + h / 2 - H / 2)\<^sup>2) / sqrt ((W / 2)\<^sup>2 + (H / 2)\<^sup>2)"
  have "0 \<le> nd" unfolding nd_def by (intro divide_nonneg_nonneg real_sqrt_ge_zero) simp_all
  then have "exp (- 3 * nd) \<le> 1" by simp
  moreover have "0 < exp (- 3 * nd)" by simp
  ultimately show ?thesis
    by (simp add: calculatePositionScore_def b Let_def nd_def)
qed

lemma centrality_range:
  "0 \<le> calculateCentralityScore p W H \<and> calculateCentralityScore p W H \<le> 100"
proof -
  obtain cx cy where c: "centerPoint p = (cx, cy)" by (cases "centerPoint p") auto
  show ?thesis
    by (simp add: calculateCentralityScore_def c Let_def)
qed

lemma orientation_range:
  "50 \<le> calculateOrientationScore p W H \<and> calculateOrientationScore p W H \<le> 100"
proof -
  obtain x y w h where b: "bbox p = (x, y, w, h)" by (cases "bbox p") auto
  show ?thesis
    by (simp add: calculateOrientationScore_def b Let_def)
qed

lemma clarity_upper: "calculateClarityScore p \<le> 100"
  by (simp add: calculateClarityScore_def Let_def)

lemma clarity_lower: "0 \<le> confidence p \<Longrightarrow> 70 \<le> calculateClarityScore p"
  by (simp add: calculateClarityScore_def Let_def)

lemma size_range:
  assumes b: "bbox p = (x, y, w, h)"
    and "0 \<le> w" "0 \<le> h" "w \<le> W" "h \<le> H" "0 < W" "0 < H"
  shows "0 \<le> calculateSizeScore p W H \<and> calculateSizeScore p W H \<le> 100"
proof -
  define r where "r = w * h / (W * H)"
  have r0: "0 \<le> r" unfolding r_def using assms by simp
  have le: "w * h \<le> W * H" using assms by (intro mult_mono) simp_all
  have "0 < W * H" using assms(6,7) by (rule mult_pos_pos)
  then have r1: "r \<le> 1" unfolding r_def using le by (simp only: pos_divide_le_eq mult_1)
  have eq: "calculateSizeScore p W H =
      (if r < 0.05 then (r / 0.05) * 60
       else if r > 0.40 then max 20 (100 * (1 - (r - 0.40) / (0.8 - 0.40))) else 100)"
    unfolding calculateSizeScore_def b r_def Let_def prod.case by (rule refl)
  show ?thesis
  proof (cases "r < 0.05")
    case True
    then show ?thesis unfolding eq using r0 by simp
  next
    case small: False
    show ?thesis
    proof (cases "r > 0.40")
      case True
      have "100 * (1 - (r - 0.40) / (0.8 - 0.40)) \<le> 100" using True by simp
      then show ?thesis unfolding eq using True small by simp
    next
      case False
      then show ?thesis unfolding eq using small by simp
    qed
  qed
qed

section \<open>Lemmas about separation\<close>

lemma personId_calculateForegroundScore [simp]:
  "personId (calculateForegroundScore m W H) = mask_id m"
  by (simp add: calculateForegroundScore_def Let_def)

lemma mset_sorted_ids:
  "mset (map personId (sortByScoreDesc (map (\<lambda>m. calculateForegroundScore m W H) ms)))
     = mset (map mask_id ms)"
  by (simp add: sortByScoreDesc_def multiset.map_comp o_def)

lemma length_sortByScoreDesc [simp]: "length (sortByScoreDesc xs) = length xs"
  by (simp add: sortByScoreDesc_def)

lemma length_filter_ids:
  assumes "distinct (map f ms)" "distinct ids" "set ids \<subseteq> f ` set ms"
  shows "length (filter (\<lambda>m. f m \<in> set ids) ms) = length ids"
proof -
  have "length (filter (\<lambda>m. f m \<in> set ids) ms) = length (filter (\<lambda>i. i \<in> set ids) (map f ms))"
    by (simp add: filter_map o_def)
  also have "\<dots> = card ({i. i \<in> set ids} \<inter> set (map f ms))"
    using assms(1) by (rule distinct_length_filter)
  also have "{i. i \<in> set ids} \<inter> set (map f ms) = set ids"
    using assms(3) by auto
  also have "card (set ids) = length ids"
    using assms(2) by (rule distinct_card)
  finally show ?thesis .
qed

lemma separate_nonempty:
  "masks d \<noteq> [] \<Longrightarrow> separateForegroundBackground d t =
     \<lparr> foregroundMasks = filter (\<lambda>m. mask_id m \<in> set (foregroundIdsOf d t)) (masks d),
       backgroundMasks = filter (\<lambda>m. mask_id m \<notin> set (foregroundIdsOf d t)) (masks d),
       foregroundMask = combineMasks (filter (\<lambda>m. mask_id m \<in> set (foregroundIdsOf d t)) (masks d)),
       backgroundMask = combineMasks (filter (\<lambda>m. mask_id m \<notin> set (foregroundIdsOf d t)) (masks d)) \<rparr>"
  by (simp add: separateForegroundBackground_def foregroundIdsOf_def Let_def)

lemma separate_empty:
  "masks d = [] \<Longrightarrow> separateForegroundBackground d t =
     \<lparr> foregroundMasks = [], backgroundMasks = [], foregroundMask = [], backgroundMask = [] \<rparr>"
  by (simp add: separateForegroundBackground_def)

lemma separate_partition:
  "mset (foregroundMasks (separateForegroundBackground d t))
     + mset (backgroundMasks (separateForegroundBackground d t)) = mset (masks d)"
  "set (foregroundMasks (separateForegroundBackground d t))
     \<inter> set (backgroundMasks (separateForegroundBackground d t)) = {}"
  "set (foregroundMasks (separateForegroundBackground d t))
     \<union> set (backgroundMasks (separateForegroundBackground d t)) = set (masks d)"
  by (cases "masks d = []"; auto simp: separate_nonempty separate_empty)+

lemma foregroundIdsOf_take:
  "foregroundIdsOf d t =
     take (nat (if min t (int (length (masks d))) < 0
                then max (int (length (masks d)) + min t (int (length (masks d)))) 0
                else min (min t (int (length (masks d)))) (int (length (masks d)))))
       (map personId (sortByScoreDesc (map (\<lambda>m. calculateForegroundScore m (imageWidth d)
          (imageHeight d)) (masks d))))"
  by (simp add: foregroundIdsOf_def slice0_def Let_def take_map)

lemma length_foreground:
  assumes "distinct (map mask_id (masks d))"
  shows "length (foregroundMasks (separateForegroundBackground d t)) =
           (if 0 \<le> t then min (nat t) (length (masks d)) else nat (int (length (masks d)) + t))"
proof (cases "masks d = []")
  case True
  then show ?thesis by (simp add: separate_empty)
next
  case False
  let ?all = "map personId (sortByScoreDesc (map (\<lambda>m. calculateForegroundScore m (imageWidth d)
          (imageHeight d)) (masks d)))"
  have ms: "mset ?all = mset (map mask_id (masks d))" by (rule mset_sorted_ids)
  have d_all: "distinct ?all" using assms ms by (metis mset_eq_imp_distinct_iff)
  have s_all: "set ?all = mask_id ` set (masks d)" using ms by (metis mset_eq_setD set_map)
  have len_all: "length ?all = length (masks d)" by simp
  obtain k where ids: "foregroundIdsOf d t = take k ?all"
    and k: "k = nat (if min t (int (length (masks d))) < 0
                then max (int (length (masks d)) + min t (int (length (masks d)))) 0
                else min (min t (int (length (masks d)))) (int (length (masks d))))"
    using foregroundIdsOf_take by blast
  have "length (filter (\<lambda>m. mask_id m \<in> set (foregroundIdsOf d t)) (masks d))
          = length (foregroundIdsOf d t)"
  proof (rule length_filter_ids)
    show "distinct (map mask_id (masks d))" by (rule assms)
    show "distinct (foregroundIdsOf d t)" unfolding ids using d_all by simp
    show "set (foregroundIdsOf d t) \<subseteq> mask_id ` set (masks d)"
      unfolding ids using s_all set_take_subset by fastforce
  qed
  also have "\<dots> = min k (length (masks d))" unfolding ids using len_all by simp
  also have "\<dots> = (if 0 \<le> t then min (nat t) (length (masks d)) else nat (int (length (masks d)) + t))"
    unfolding k by (auto simp: min_def max_def)
  finally show ?thesis using False by (simp add: separate_nonempty)
qed

lemma centered_position:
  assumes "bbox c = (x, y, w, h)" "x + w / 2 = W / 2" "y + h / 2 = H / 2"
  shows "calculatePositionScore c W H = 100"
  using assms by (simp add: calculatePositionScore_def Let_def)

lemma calculateSizeScore_ratio:
  assumes "bbox p = (x, y, w, h)" "r = w * h / (W * H)"
  shows "calculateSizeScore p W H =
      (if r < 0.05 then (r / 0.05) * 60
       else if r > 0.40 then max 20 (100 * (1 - (r - 0.40) / (0.8 - 0.40))) else 100)"
  using assms by (simp add: calculateSizeScore_def Let_def)

lemma centered_size:
  assumes b: "bbox c = (x, y, w, h)" and ar: "w * h = 0.2 * (W * H)" and W: "0 < W" and H: "0 < H"
  shows "calculateSizeScore c W H = 100"
proof -
  have r: "1 / 5 = w * h / (W * H)" using ar W H by simp
  show ?thesis unfolding calculateSizeScore_ratio [OF b r] by simp
qed

lemma centered_orientation:
  assumes "bbox c = (x, y, w, h)" "x + w / 2 = W / 2" "y + h / 2 = H / 2" "0 < W" "0 < H"
  shows "calculateOrientationScore c W H = 100"
  using assms by (simp add: calculateOrientationScore_def Let_def)

lemma centered_score_lower:
  assumes b: "bbox c = (x, y, w, h)" and cx: "x + w / 2 = W / 2" and cy: "y + h / 2 = H / 2"
    and ar: "w * h = 0.2 * (W * H)" and W: "0 < W" and H: "0 < H" and conf: "0 \<le> confidence c"
  shows "77 \<le> score (calculateForegroundScore c W H)"
proof -
  have p: "calculatePositionScore c W H = 100" using b cx cy by (rule centered_position)
  have s: "calculateSizeScore c W H = 100" using b ar W H by (rule centered_size)
  have oo: "calculateOrientationScore c W H = 100" using b cx cy W H by (rule centered_orientation)
  have ce: "0 \<le> calculateCentralityScore c W H" using centrality_range by blast
  have cl: "70 \<le> calculateClarityScore c" using conf by (rule clarity_lower)
  show ?thesis using ce cl by (simp add: calculateForegroundScore_def Let_def p s oo)
qed

lemma exp_minus_three: "exp (- 3 :: real) \<le> 1 / 4"
proof -
  have "1 + (3::real) \<le> exp 3" by (rule exp_ge_add_one_self)
  then have "1 / exp (3::real) \<le> 1 / 4" by (intro divide_left_mono) simp_all
  then show ?thesis by (simp add: exp_minus inverse_eq_divide)
qed

lemma corner_offset:
  fixes a L :: real
  assumes "a = 0 \<or> a = L"
  shows "(a - L / 2)\<^sup>2 = (L / 2)\<^sup>2"
  using assms
proof
  assume "a = 0"
  then show ?thesis by simp
next
  assume "a = L"
  then have "a - L / 2 = L / 2" by simp
  then show ?thesis by simp
qed

lemma corner_position:
  assumes b: "bbox k = (x, y, w, h)" and cx: "x + w / 2 = 0 \<or> x + w / 2 = W"
    and cy: "y + h / 2 = 0 \<or> y + h / 2 = H" and W: "0 < W" and H: "0 < H"
  shows "calculatePositionScore k W H \<le> 25"
proof -
  define D where "D = sqrt ((W / 2)\<^sup>2 + (H / 2)\<^sup>2)"
  have dx: "(x + w / 2 - W / 2)\<^sup>2 = (W / 2)\<^sup>2" by (rule corner_offset [OF cx])
  have dy: "(y + h / 2 - H / 2)\<^sup>2 = (H / 2)\<^sup>2" by (rule corner_offset [OF cy])
  have "0 < (W / 2)\<^sup>2" using W by simp
  moreover have "0 \<le> (H / 2)\<^sup>2" by simp
  ultimately have "0 < (W / 2)\<^sup>2 + (H / 2)\<^sup>2" by (rule add_pos_nonneg)
  then have "0 < D" unfolding D_def by (simp only: real_sqrt_gt_0_iff)
  then have one: "D / D = 1" by simp
  have "calculatePositionScore k W H = max 0 (100 * exp (- 3 * (D / D)))"
    by (simp add: calculatePositionScore_def b Let_def dx dy D_def)
  also have "\<dots> = max 0 (100 * exp (- 3))" unfolding one by simp
  also have "\<dots> \<le> 25" using exp_minus_three by simp
  finally show ?thesis .
qed

lemma corner_size:
  assumes b: "bbox k = (x, y, w, h)" and ar: "w * h = 0.02 * (W * H)" and W: "0 < W" and H: "0 < H"
  shows "calculateSizeScore k W H = 24"
proof -
  have r: "1 / 50 = w * h / (W * H)" using ar W H by simp
  show ?thesis unfolding calculateSizeScore_ratio [OF b r] by simp
qed

lemma corner_score_upper:
  assumes b: "bbox k = (x, y, w, h)" and cx: "x + w / 2 = 0 \<or> x + w / 2 = W"
    and cy: "y + h / 2 = 0 \<or> y + h / 2 = H" and ar: "w * h = 0.02 * (W * H)"
    and W: "0 < W" and H: "0 < H"
  shows "score (calculateForegroundScore k W H) \<le> 117 / 2"
proof -
  have p: "calculatePositionScore k W H \<le> 25" using b cx cy W H by (rule corner_position)
  have s: "calculateSizeScore k W H = 24" using b ar W H by (rule corner_size)
  have oo: "calculateOrientationScore k W H \<le> 100" using orientation_range by blast
  have ce: "calculateCentralityScore k W H \<le> 100" using centrality_range by blast
  have cl: "calculateClarityScore k \<le> 100" by (rule clarity_upper)
  define finalScore where "finalScore = calculatePositionScore k W H * 0.30
      + calculateSizeScore k W H * 0.25 + calculateCentralityScore k W H * 0.20
      + calculateOrientationScore k W H * 0.15 + calculateClarityScore k * 0.10"
  have "finalScore \<le> 117 / 2" unfolding finalScore_def s using p oo ce cl by simp
  then have "max 0 (min 100 finalScore) \<le> 117 / 2" by simp
  then show ?thesis by (simp add: calculateForegroundScore_def Let_def finalScore_def)
qed

lemma two_masks_partition:
  assumes ms: "masks d = [c, k] \<or> masks d = [k, c]"
    and ids: "mask_id c \<noteq> mask_id k"
    and lt: "score (calculateForegroundScore k (imageWidth d) (imageHeight d))
               < score (calculateForegroundScore c (imageWidth d) (imageHeight d))"
  shows "foregroundMasks (separateForegroundBackground d 1) = [c]"
    and "backgroundMasks (separateForegroundBackground d 1) = [k]"
proof -
  have fid: "foregroundIdsOf d 1 = [mask_id c]"
    using ms lt by (auto simp: foregroundIdsOf_def sortByScoreDesc_def slice0_def Let_def)
  have ne: "masks d \<noteq> []" using ms by auto
  show "foregroundMasks (separateForegroundBackground d 1) = [c]"
    using ms ids by (auto simp: separate_nonempty [OF ne] fid)
  show "backgroundMasks (separateForegroundBackground d 1) = [k]"
    using ms ids by (auto simp: separate_nonempty [OF ne] fid)
qed

lemma separate_zero:
  "foregroundMasks (separateForegroundBackground d 0) = []
   \<and> backgroundMasks (separateForegroundBackground d 0) = masks d"
  by (cases "masks d = []")
     (simp_all add: separate_empty separate_nonempty foregroundIdsOf_def slice0_def)

lemma scenarioB_partition:
  assumes ms: "masks d = [c, k] \<or> masks d = [k, c]"
    and ids: "mask_id c \<noteq> mask_id k"
    and W: "0 < imageWidth d" and H: "0 < imageHeight d"
    and conf: "0 \<le> confidence c"
    and cb: "bbox c = (cx, cy, cw, ch)"
    and ccx: "cx + cw / 2 = imageWidth d / 2" and ccy: "cy + ch / 2 = imageHeight d / 2"
    and car: "cw * ch = 0.2 * (imageWidth d * imageHeight d)"
    and kb: "bbox k = (kx, ky, kw, kh)"
    and kcx: "kx + kw / 2 = 0 \<or> kx + kw / 2 = imageWidth d"
    and kcy: "ky + kh / 2 = 0 \<or> ky + kh / 2 = imageHeight d"
    and kar: "kw * kh = 0.02 * (imageWidth d * imageHeight d)"
  shows "foregroundMasks (separateForegroundBackground d 1) = [c]
       \<and> backgroundMasks (separateForegroundBackground d 1) = [k]"
proof -
  have lo: "77 \<le> score (calculateForegroundScore c (imageWidth d) (imageHeight d))"
    using cb ccx ccy car W H conf by (rule centered_score_lower)
  have hi: "score (calculateForegroundScore k (imageWidth d) (imageHeight d)) \<le> 117 / 2"
    using kb kcx kcy kar W H by (rule corner_score_upper)
  have lt: "score (calculateForegroundScore k (imageWidth d) (imageHeight d))
              < score (calculateForegroundScore c (imageWidth d) (imageHeight d))"
    using lo hi by simp
  show ?thesis using two_masks_partition [OF ms ids lt] by simp
qed

lemma scenarioB_facts:
  "foregroundMasks (separateForegroundBackground (scenarioB m) 1) = [centeredPerson]
   \<and> backgroundMasks (separateForegroundBackground (scenarioB m) 1) = [cornerPerson m]"
  by (rule scenarioB_partition [where cx = 300 and cy = 250 and cw = 400 and ch = 500
        and kx = 950 and ky = 900 and kw = 100 and kh = 200])
     (simp_all add: scenarioB_def centeredPerson_def cornerPerson_def)

section \<open>Lemmas about the retry loop\<close>

lemma attemptLoop_last:
  assumes "failed (fst (run s))"
  shows "attemptLoop run N N tr s = (outcome (fst (run s)), tr @ [Attempt N], snd (run s))"
  using assms
  by (subst attemptLoop.simps)
     (auto simp: failed_def outcome_def split: prod.splits sum.splits)

lemma attemptLoop_retry:
  assumes "failed (fst (run s))" "a < N"
  shows "attemptLoop run N a tr s =
           attemptLoop run N (a + 1) (tr @ [Attempt a, Wait (min (1000 * 2 ^ nat (a - 1)) 5000)])
             (snd (run s))"
  using assms
  by (subst attemptLoop.simps)
     (auto simp: failed_def Let_def split: prod.splits sum.splits)

lemma attemptLoop_exhausted:
  "N < a \<Longrightarrow> attemptLoop run N a tr s = (failureResult 0 ''Max retries exceeded'', tr, s)"
  by (subst attemptLoop.simps) simp

lemma attemptLoop_all_fail:
  assumes all: "\<forall>s. failed (fst (run s))"
  shows "a \<le> N \<Longrightarrow> n = nat (N - a) \<Longrightarrow>
         attemptLoop run N a tr s =
           (outcome (fst (run (stateAfter run n s))),
            tr @ Attempt a # backoffSchedule (a + 1) N,
            stateAfter run (Suc n) s)"
proof (induction n arbitrary: a tr s)
  case 0
  then have "a = N" by simp
  then show ?case using all by (simp add: attemptLoop_last backoffSchedule_def)
next
  case (Suc n)
  then have lt: "a < N" and n: "n = nat (N - (a + 1))" and le: "a + 1 \<le> N" by simp_all
  have f: "failed (fst (run s))" using all by blast
  have up: "[a + 1..N] = (a + 1) # [a + 1 + 1..N]" using le by (rule upto_rec1)
  have e: "nat (a + 1 - 2) = nat (a - 1)" by simp
  show ?case
    unfolding attemptLoop_retry [of run s a N tr, OF f lt] Suc.IH [OF le n]
    by (simp add: backoffSchedule_def up e)
qed

lemma attemptsOf_append [simp]: "attemptsOf (xs @ ys) = attemptsOf xs @ attemptsOf ys"
  by (induction xs rule: attemptsOf.induct) simp_all


lemma attemptLoop_stop:
  assumes "a \<le> N" "a = N \<or> \<not> failed (fst (run s))"
  shows "fst (snd (attemptLoop run N a tr s)) = tr @ [Attempt a]"
  using assms
  by (subst attemptLoop.simps) (auto simp: failed_def split: sum.splits prod.splits)

lemma trace_shape:
  "n = nat (N + 1 - a) \<Longrightarrow>
   \<exists>m. m \<le> N \<and> fst (snd (attemptLoop run N a tr s)) =
      tr @ (if a \<le> N then Attempt a # backoffSchedule (a + 1) m else [])"
proof (induction n arbitrary: a tr s)
  case 0
  then have "N < a" by simp
  then show ?case by (auto simp: attemptLoop_exhausted)
next
  case (Suc n)
  then have le: "a \<le> N" and n: "n = nat (N + 1 - (a + 1))" by simp_all
  show ?case
  proof (cases "a = N \<or> \<not> failed (fst (run s))")
    case True
    have "fst (snd (attemptLoop run N a tr s)) = tr @ [Attempt a]"
      using le True by (rule attemptLoop_stop)
    moreover have "backoffSchedule (a + 1) a = []" by (simp add: backoffSchedule_def)
    ultimately show ?thesis using le by (intro exI [of _ a]) simp
  next
    case False
    then have lt: "a < N" and fl: "failed (fst (run s))" using le by auto
    let ?tr = "tr @ [Attempt a, Wait (min (1000 * 2 ^ nat (a - 1)) 5000)]"
    have step: "attemptLoop run N a tr s = attemptLoop run N (a + 1) ?tr (snd (run s))"
      using fl lt by (rule attemptLoop_retry)
    obtain m where m: "m \<le> N"
      and tr': "fst (snd (attemptLoop run N (a + 1) ?tr (snd (run s)))) =
                  ?tr @ Attempt (a + 1) # backoffSchedule (a + 1 + 1) m"
      using Suc.IH [OF n, of ?tr "snd (run s)"] lt by auto
    define m' where "m' = max m (a + 1)"
    have m': "m' \<le> N" "a + 1 \<le> m'" using m lt by (simp_all add: m'_def)
    have same: "backoffSchedule (a + 1 + 1) m = backoffSchedule (a + 1 + 1) m'"
      by (simp add: backoffSchedule_def m'_def max_def)
    have up: "[a + 1..m'] = (a + 1) # [a + 1 + 1..m']" using m'(2) by (rule upto_rec1)
    have e: "nat (a + 1 - 2) = nat (a - 1)" by simp
    have "backoffSchedule (a + 1) m' =
            Wait (min (1000 * 2 ^ nat (a - 1)) 5000) # Attempt (a + 1) # backoffSchedule (a + 1 + 1) m'"
      unfolding backoffSchedule_def up by (simp add: e)
    then show ?thesis using m'(1) le tr' same
      by (intro exI [of _ m']) (simp add: step)
  qed
qed

section \<open>Lemmas about the inpainting selector\<close>

lemma calls_replicate_run [simp]: "calls (snd (replicate_run m f s)) = calls s @ [m]"
  by (simp add: replicate_run_def split: prod.splits)

lemma calls_inpaintVia [simp]:
  "calls (snd (inpaintVia m label used env iu mu p s)) = calls s @ [m]"
proof -
  obtain r s1 where r: "replicate_run m (run_inpaint env m iu mu p) s = (r, s1)"
    by (cases "replicate_run m (run_inpaint env m iu mu p) s")
  have "calls s1 = calls s @ [m]" using calls_replicate_run [of m "run_inpaint env m iu mu p" s] r by simp
  then show ?thesis
    by (simp add: inpaintVia_def Let_def r split: sum.splits option.splits list.splits)
qed

lemma preferredAttempt_known:
  assumes "pm \<in> {''stability'', ''runwayml'', ''flux''}"
  shows "\<exists>label used. preferredAttempt pm env iu mu p s = Some (inpaintVia (modelOfName pm) label used env iu mu p s)"
  using assms
  by (auto simp: preferredAttempt_def modelOfName_def inpaintWithStabilityAI_def
       inpaintWithRunwayML_def inpaintWithFLUX_def)

lemma calls_backends:
  "inpaintWithStabilityAI env iu mu p s = (r, s1) \<Longrightarrow> calls s1 = calls s @ [StabilityInpainting]"
  "inpaintWithRunwayML env iu mu p s = (r, s1) \<Longrightarrow> calls s1 = calls s @ [RunwayInpainting]"
  "inpaintWithFLUX env iu mu p s = (r, s1) \<Longrightarrow> calls s1 = calls s @ [FluxKontext]"
  by (metis calls_inpaintVia inpaintWithStabilityAI_def snd_conv,
      metis calls_inpaintVia inpaintWithRunwayML_def snd_conv,
      metis calls_inpaintVia inpaintWithFLUX_def snd_conv)

lemma calls_tryModels_extends:
  assumes "\<forall>f \<in> snd ` set ms. \<forall>s. \<exists>cs. calls (snd (f env iu mu p s)) = calls s @ cs"
  shows "\<exists>cs. calls (snd (tryModels ms env iu mu p s)) = calls s @ cs"
  using assms
proof (induction ms arbitrary: s)
  case Nil
  show ?case by simp
next
  case (Cons a ms)
  obtain r s1 where r: "snd a env iu mu p s = (r, s1)" by (cases "snd a env iu mu p s")
  have "\<exists>cs. calls (snd (snd a env iu mu p s)) = calls s @ cs" using Cons.prems by simp
  then obtain cs where cs: "calls s1 = calls s @ cs" using r by auto
  show ?case
  proof (cases r)
    case (Inr res)
    then show ?thesis using r cs by simp
  next
    case (Inl e)
    have "\<exists>cs'. calls (snd (tryModels ms env iu mu p s1)) = calls s1 @ cs'"
      by (rule Cons.IH) (use Cons.prems in simp)
    then show ?thesis using r cs Inl by auto
  qed
qed

lemma calls_tryModels_models:
  "\<exists>cs. calls (snd (tryModels models env iu mu p s)) = calls s @ cs"
  by (rule calls_tryModels_extends)
     (simp add: models_def inpaintWithStabilityAI_def inpaintWithRunwayML_def inpaintWithFLUX_def)

lemma smartInpainting_preferred_failed:
  assumes "pm \<noteq> []" "p = promptOrDefault pr" "preferredAttempt pm env iu mu p s = Some (Inl e, s1)"
  shows "smartInpainting env iu mu pr (Some pm) s = tryModels models env iu mu p s1"
  using assms by (simp add: smartInpainting_def)

lemma smartInpainting_preferred_ok:
  assumes "pm \<noteq> []" "p = promptOrDefault pr" "preferredAttempt pm env iu mu p s = Some (Inr r, s1)"
  shows "smartInpainting env iu mu pr (Some pm) s = (Inr r, s1)"
  using assms by (simp add: smartInpainting_def)


lemma tryModels_error:
  "tryModels ms env iu mu p s = (Inl e, s') \<Longrightarrow> e = Error ''All inpainting models failed''"
  by (induction ms arbitrary: s) (auto split: prod.splits sum.splits)

lemma smartInpainting_error:
  "smartInpainting env iu mu pr pm s = (Inl e, s') \<Longrightarrow> e = Error ''All inpainting models failed''"
  by (auto simp: smartInpainting_def Let_def split: option.splits if_splits sum.splits prod.splits dest: tryModels_error)

lemma smartInpainting_unknown_name:
  assumes "pm \<notin> {''stability'', ''runwayml'', ''flux''}"
  shows "smartInpainting env imageUrl maskUrl prompt (Some pm) s =
           tryModels models env imageUrl maskUrl (promptOrDefault prompt) s"
  using assms by (simp add: smartInpainting_def preferredAttempt_def Let_def)

section \<open>Lemmas about the pipeline\<close>

lemma inpaintingCalls_replicate_run:
  "replicate_run m f s = (r, s1) \<Longrightarrow> \<not> isInpaintingModel m \<Longrightarrow>
   filter isInpaintingModel (calls s1) = filter isInpaintingModel (calls s)"
  by (auto simp: replicate_run_def split: prod.splits)

lemma detectPeopleInImage_error:
  "detectPeopleInImage env url s = (Inl e, s1) \<Longrightarrow> message_of e \<noteq> []"
  by (auto simp: detectPeopleInImage_def Let_def message_of_def split: prod.splits sum.splits option.splits)

lemma inpaintingCalls_detectPeopleInImage:
  "detectPeopleInImage env url s = (r, s1) \<Longrightarrow>
   filter isInpaintingModel (calls s1) = filter isInpaintingModel (calls s)"
  by (auto simp: detectPeopleInImage_def Let_def split: prod.splits sum.splits option.splits
      dest: inpaintingCalls_replicate_run)

lemma inpaintingCalls_yoloLoop:
  "yoloLoop env url i ds acc s = (r, s1) \<Longrightarrow>
   filter isInpaintingModel (calls s1) = filter isInpaintingModel (calls s)"
proof (induction ds arbitrary: i acc s)
  case Nil
  then show ?case by simp
next
  case (Cons d ds)
  obtain x s' where x: "replicate_run SAM (run_sam env url (bboxOrDefault d)) s = (x, s')"
    by (cases "replicate_run SAM (run_sam env url (bboxOrDefault d)) s")
  have c: "filter isInpaintingModel (calls s') = filter isInpaintingModel (calls s)"
    using x by (rule inpaintingCalls_replicate_run) simp
  show ?case
  proof (cases x)
    case (Inl e)
    then show ?thesis using Cons.prems x c by simp
  next
    case (Inr out)
    then show ?thesis using Cons.prems x c Cons.IH
      by (auto split: option.splits if_splits)
  qed
qed

lemma detectPeopleWithYOLO_error:
  "detectPeopleWithYOLO env url s = (Inl e, s1) \<Longrightarrow> message_of e \<noteq> []"
  by (auto simp: detectPeopleWithYOLO_def message_of_def split: prod.splits sum.splits option.splits)

lemma inpaintingCalls_detectPeopleWithYOLO:
  "detectPeopleWithYOLO env url s = (r, s1) \<Longrightarrow>
   filter isInpaintingModel (calls s1) = filter isInpaintingModel (calls s)"
  by (auto simp: detectPeopleWithYOLO_def split: prod.splits sum.splits option.splits
      dest!: inpaintingCalls_replicate_run inpaintingCalls_yoloLoop)

lemma detectionStage_error:
  "detectionStage env url fb s = (Inl e, s1) \<Longrightarrow> message_of e \<noteq> []"
  by (auto simp: detectionStage_def message_of_def split: prod.splits sum.splits if_splits
      dest: detectPeopleInImage_error)

lemma inpaintingCalls_detectionStage:
  "detectionStage env url fb s = (r, s1) \<Longrightarrow>
   filter isInpaintingModel (calls s1) = filter isInpaintingModel (calls s)"
  by (auto simp: detectionStage_def split: prod.splits sum.splits if_splits
      dest!: inpaintingCalls_detectPeopleInImage inpaintingCalls_detectPeopleWithYOLO)

lemma single_mask_no_background:
  assumes "length (masks d) = 1" "1 \<le> t"
  shows "backgroundMasks (separateForegroundBackground d t) = []"
proof -
  obtain m where m: "masks d = [m]" using assms(1) by (cases "masks d") auto
  have "foregroundIdsOf d t = [mask_id m]"
    using assms(2) by (simp add: foregroundIdsOf_def m sortByScoreDesc_def slice0_def Let_def)
  then show ?thesis by (simp add: separate_nonempty m)
qed

lemma single_mask_foreground:
  assumes "length (masks d) = 1" "1 \<le> t"
  shows "foregroundMasks (separateForegroundBackground d t) = masks d"
proof -
  obtain m where m: "masks d = [m]" using assms(1) by (cases "masks d") auto
  have "foregroundIdsOf d t = [mask_id m]"
    using assms(2) by (simp add: foregroundIdsOf_def m sortByScoreDesc_def slice0_def Let_def)
  then show ?thesis by (simp add: separate_nonempty m)
qed

lemma pipelineBody_short_circuit:
  assumes "detectionStage env url (optFallback options) s = (Inr d, s1)"
    and "masks d \<noteq> []"
    and "backgroundMasks (separateForegroundBackground d (optTarget options)) = []"
  shows "pipelineBody env url options t0 s =
           (Inr \<lparr> success = True, resultUrl = Some url,
                  processingTime = now env (world s1) - t0,
                  details = \<lparr> peopleDetected = int (length (masks d)),
                              foregroundPeople = int (length (foregroundMasks
                                (separateForegroundBackground d (optTarget options)))),
                              backgroundPeople = 0,
                              modelUsed = ''SAM-2/YOLO'',
                              inpaintingModel = ''none'' \<rparr>,
                  error = None \<rparr>, s1)"
  using assms by (simp add: pipelineBody_def Let_def)

lemma autoRemove_of_body:
  "pipelineBody env url options (now env (world s)) s = (Inr r, s1) \<Longrightarrow>
   autoRemoveBackgroundPeople env url options s = (Inr r, s1)"
  "pipelineBody env url options (now env (world s)) s = (Inl e, s1) \<Longrightarrow>
   autoRemoveBackgroundPeople env url options s =
     (Inr (failureResult (now env (world s1) - now env (world s)) (message_of e)), s1)"
  by (simp_all add: autoRemoveBackgroundPeople_def Let_def)

lemma pipelineBody_error:
  "pipelineBody env url options t0 s = (Inl e, s1) \<Longrightarrow> message_of e \<noteq> []"
  by (auto simp: pipelineBody_def Let_def message_of_def validateInpaintingResult_def
      split: prod.splits sum.splits if_splits
      dest: detectionStage_error smartInpainting_error)

lemma pipelineBody_result:
  "pipelineBody env url options t0 s = (Inr r, s1) \<Longrightarrow>
   success r \<or> error r = Some ''No people detected in the image''"
  by (auto simp: pipelineBody_def Let_def failureResult_def validateInpaintingResult_def
      split: prod.splits sum.splits if_splits)

lemma pipelineBody_success_label:
  "pipelineBody env url options t0 s = (Inr r, s1) \<Longrightarrow> success r \<Longrightarrow>
   modelUsed (details r) = ''SAM-2/YOLO''"
  by (auto simp: pipelineBody_def Let_def failureResult_def validateInpaintingResult_def
      split: prod.splits sum.splits if_splits)

lemma mask_personMask: "mask (personMask i bb m c) = m"
  by (cases bb) (simp add: personMask_def Let_def)

lemma short_circuit_result:
  assumes det: "detectionStage env imageUrl (optFallback options) s = (Inr d, s1)"
    and one: "length (masks d) = 1"
    and t: "1 \<le> optTarget options"
  shows "autoRemoveBackgroundPeople env imageUrl options s =
           (Inr \<lparr> success = True, resultUrl = Some imageUrl,
                  processingTime = now env (world s1) - now env (world s),
                  details = \<lparr> peopleDetected = 1, foregroundPeople = 1, backgroundPeople = 0,
                              modelUsed = ''SAM-2/YOLO'', inpaintingModel = ''none'' \<rparr>,
                  error = None \<rparr>, s1)"
proof -
  have ne: "masks d \<noteq> []" using one by auto
  have bg: "backgroundMasks (separateForegroundBackground d (optTarget options)) = []"
    using one t by (rule single_mask_no_background)
  have fg: "foregroundMasks (separateForegroundBackground d (optTarget options)) = masks d"
    using one t by (rule single_mask_foreground)
  show ?thesis
    using autoRemove_of_body(1) [OF pipelineBody_short_circuit [OF det ne bg]]
    by (simp add: fg one)
qed

lemma detectionStage_fallback:
  assumes "detectPeopleInImage env imageUrl s = (Inl e, s1)"
    and "detectPeopleWithYOLO env imageUrl s1 = (Inr d, s2)"
  shows "detectionStage env imageUrl True s = (Inr d, s2)"
  using assms by (simp add: detectionStage_def)

lemma autoRemove_success_label:
  assumes "autoRemoveBackgroundPeople env imageUrl options s = (Inr r, s1)" and "success r"
  shows "modelUsed (details r) = ''SAM-2/YOLO''"
proof -
  obtain x s' where b: "pipelineBody env imageUrl options (now env (world s)) s = (x, s')"
    by (cases "pipelineBody env imageUrl options (now env (world s)) s")
  show ?thesis
  proof (cases x)
    case (Inr r')
    have "autoRemoveBackgroundPeople env imageUrl options s = (Inr r', s')"
      using b unfolding Inr by (rule autoRemove_of_body)
    then have "r' = r" using assms(1) by simp
    then show ?thesis using pipelineBody_success_label [OF b [unfolded Inr]] assms(2) by simp
  next
    case (Inl e)
    have "autoRemoveBackgroundPeople env imageUrl options s =
            (Inr (failureResult (now env (world s') - now env (world s)) (message_of e)), s')"
      using b unfolding Inl by (rule autoRemove_of_body)
    then have "\<not> success r" using assms(1) by (auto simp: failureResult_def)
    then show ?thesis using assms(2) by simp
  qed
qed


lemma optFallback_default [simp]:
  "optFallback (defaultOptions\<lparr>maxRetries := r\<rparr>)" "optFallback defaultOptions"
  by (simp_all add: optFallback_def defaultOptions_def)



lemma tryModels_attempts_fail:
  assumes "inpaintWithStabilityAI env iu mu p s1 = (Inl e1, s2)"
    and "inpaintWithRunwayML env iu mu p s2 = (Inl e2, s3)"
    and "inpaintWithFLUX env iu mu p s3 = (Inl e3, s4)"
  shows "tryModels models env iu mu p s1 = (Inl (Error ''All inpainting models failed''), s4)"
    and "calls s4 = calls s1 @ [StabilityInpainting, RunwayInpainting, FluxKontext]"
proof -
  show "tryModels models env iu mu p s1 = (Inl (Error ''All inpainting models failed''), s4)"
    by (simp add: models_def assms)
  have c1: "calls s2 = calls s1 @ [StabilityInpainting]" using assms(1) by (rule calls_backends)
  have c2: "calls s3 = calls s2 @ [RunwayInpainting]" using assms(2) by (rule calls_backends)
  have c3: "calls s4 = calls s3 @ [FluxKontext]" using assms(3) by (rule calls_backends)
  show "calls s4 = calls s1 @ [StabilityInpainting, RunwayInpainting, FluxKontext]"
    by (simp add: c1 c2 c3)
qed










lemma yolo_single_box:
  assumes "run_yolo env imageUrl (world s1) = (Inr (Some [box]), w2)"
    and "run_sam env imageUrl (bboxOrDefault box) w2 = (Inr (Some m), w3)"
    and "m \<noteq> []"
  shows "detectPeopleWithYOLO env imageUrl s1 =
           (Inr \<lparr> masks = [personMask 0 (bboxOrDefault box) m (item_confidence box)],
                  imageWidth = 1024, imageHeight = 1024 \<rparr>,
            \<lparr> world = w3, calls = calls s1 @ [YOLOv8, SAM] \<rparr>)"
  using assms by (simp add: detectPeopleWithYOLO_def replicate_run_def)

lemma single_mask_all_background:
  assumes "length (masks d) = 1" "t \<le> 0"
  shows "foregroundMasks (separateForegroundBackground d t) = []"
    and "backgroundMasks (separateForegroundBackground d t) = masks d"
proof -
  obtain m where m: "masks d = [m]" using assms(1) by (cases "masks d") auto
  have ids: "foregroundIdsOf d t = []"
    using assms(2) by (simp add: foregroundIdsOf_def m sortByScoreDesc_def slice0_def Let_def)
  show "foregroundMasks (separateForegroundBackground d t) = []"
    by (simp add: separate_nonempty m ids)
  show "backgroundMasks (separateForegroundBackground d t) = masks d"
    by (simp add: separate_nonempty m ids)
qed

lemma pipelineBody_inpaint:
  assumes "detectionStage env url (optFallback options) s = (Inr d, s1)"
    and "masks d \<noteq> []"
    and "backgroundMasks (separateForegroundBackground d (optTarget options)) \<noteq> []"
    and "generateInpaintingMask (backgroundMasks (separateForegroundBackground d (optTarget options)))
           (imageWidth d) (imageHeight d) = mk"
    and "mk \<noteq> []"
  shows "pipelineBody env url options t0 s =
     (case smartInpainting env url mk
             (Some (generateOptimizedPrompt (customPrompt options) (Some ''outdoor'')))
             (preferredInpaintingModel options) s1 of
        (Inl err, s2) \<Rightarrow> (Inl err, s2)
      | (Inr inpaintingResult, s2) \<Rightarrow>
          (Inr \<lparr> success = True, resultUrl = Some (ir_resultUrl inpaintingResult),
                 processingTime = now env (world s2) - t0,
                 details =
                   \<lparr> peopleDetected = int (length (masks d)),
                     foregroundPeople = int (length (foregroundMasks
                        (separateForegroundBackground d (optTarget options)))),
                     backgroundPeople = int (length (backgroundMasks
                        (separateForegroundBackground d (optTarget options)))),
                     modelUsed = ''SAM-2/YOLO'',
                     inpaintingModel = ir_modelUsed inpaintingResult \<rparr>,
                 error = None \<rparr>, s2))"
  using assms
  by (simp add: pipelineBody_def Let_def validateInpaintingResult_def
      split: prod.splits sum.splits)

section \<open>The example worlds\<close>

lemma offline_pipeline:
  "optFallback options \<Longrightarrow>
   autoRemoveBackgroundPeople offlineEnv url options s =
     (Inr (failureResult 0
        ''Both SAM-2 and YOLO detection failed: Failed to detect people: offline''),
      \<lparr> world = (), calls = calls s @ [SAM2, YOLOv8] \<rparr>)"
  by (simp add: autoRemoveBackgroundPeople_def pipelineBody_def detectionStage_def
        detectPeopleInImage_def detectPeopleWithYOLO_def replicate_run_def offlineEnv_def
        constEnv_def message_of_def Let_def)

lemma primary_detection:
  "detectionStage primaryEnv url fb initialState =
   (Inr \<lparr> masks = [personMask 0 (300, 250, 400, 500) ''maskA'' (Some 0.9)],
          imageWidth = 1024, imageHeight = 1024 \<rparr>,
    \<lparr> world = (), calls = [SAM2] \<rparr>)"
  by (simp add: detectionStage_def detectPeopleInImage_def replicate_run_def primaryEnv_def
        constEnv_def onePersonItem_def initialState_def bboxOrDefault_def personMask_def Let_def)

lemma fallback_detection:
  "detectPeopleInImage fallbackEnv url initialState =
     (Inl (Error ''Failed to detect people: offline''), \<lparr> world = (), calls = [SAM2] \<rparr>)"
  "detectPeopleWithYOLO fallbackEnv url \<lparr> world = (), calls = [SAM2] \<rparr> =
     (Inr \<lparr> masks = [personMask 0 (300, 250, 400, 500) ''maskA'' (Some 0.9)],
            imageWidth = 1024, imageHeight = 1024 \<rparr>,
      \<lparr> world = (), calls = [SAM2, YOLOv8, SAM] \<rparr>)"
  by (simp_all add: detectPeopleInImage_def detectPeopleWithYOLO_def replicate_run_def
        fallbackEnv_def constEnv_def onePersonItem_def initialState_def bboxOrDefault_def
        message_of_def)

lemma offline_inpaintVia:
  "inpaintVia m label used offlineEnv iu mu p s =
     (Inl (Error (''Failed to inpaint with '' @ label @ '': offline'')),
      \<lparr> world = (), calls = calls s @ [m] \<rparr>)"
  by (simp add: inpaintVia_def replicate_run_def offlineEnv_def constEnv_def message_of_def)

lemma fallback_services:
  "run_yolo fallbackEnv url w = (Inr (Some [onePersonItem]), ())"
  "run_sam fallbackEnv url bb w = (Inr (Some ''maskA''), ())"
  by (simp_all add: fallbackEnv_def constEnv_def)

lemma fallback_smartInpainting:
  "smartInpainting fallbackEnv ''u'' ''maskA'' pr None
     \<lparr> world = (), calls = [SAM2, YOLOv8, SAM] \<rparr> =
   (Inl (Error ''All inpainting models failed''),
    \<lparr> world = (),
      calls = [SAM2, YOLOv8, SAM, StabilityInpainting, RunwayInpainting, FluxKontext] \<rparr>)"
proof -
  have inp: "inpaintVia m label used fallbackEnv iu mu p s =
      (Inl (Error (''Failed to inpaint with '' @ label @ '': offline'')),
       \<lparr> world = (), calls = calls s @ [m] \<rparr>)" for m label used iu mu p s
    by (simp add: inpaintVia_def replicate_run_def fallbackEnv_def constEnv_def message_of_def)
  show ?thesis
    by (simp add: smartInpainting_def models_def inpaintWithStabilityAI_def
          inpaintWithRunwayML_def inpaintWithFLUX_def inp)
qed

section \<open>Properties\<close>

text \<open>
  C1. Whenever detection succeeds with at least one mask and the separator returns no
  background mask (in particular when exactly one person is detected and
  \<open>targetForegroundCount \<ge> 1\<close>), \<open>autoRemoveBackgroundPeople\<close> returns a result with
  success, the input image URL as result URL and \<^verbatim>\<open>"none"\<close> as inpainting model, and
  invokes no inpainting back-end: the state it ends in is the one detection left, whose
  log holds no more inpainting calls than at the start.
\<close>

theorem no_background_short_circuit:
  assumes det: "detectionStage env imageUrl (optFallback options) s = (Inr d, s1)"
    and ne: "masks d \<noteq> []"
    and bg: "backgroundMasks (separateForegroundBackground d (optTarget options)) = []
             \<or> (length (masks d) = 1 \<and> 1 \<le> optTarget options)"
  shows "\<exists>r. autoRemoveBackgroundPeople env imageUrl options s = (Inr r, s1)
             \<and> success r
             \<and> resultUrl r = Some imageUrl
             \<and> inpaintingModel (details r) = ''none''
             \<and> filter isInpaintingModel (calls s1) = filter isInpaintingModel (calls s)"
proof -
  have bg': "backgroundMasks (separateForegroundBackground d (optTarget options)) = []"
    using bg single_mask_no_background by blast
  have body: "pipelineBody env imageUrl options (now env (world s)) s =
           (Inr \<lparr> success = True, resultUrl = Some imageUrl,
                  processingTime = now env (world s1) - now env (world s),
                  details = \<lparr> peopleDetected = int (length (masks d)),
                              foregroundPeople = int (length (foregroundMasks
                                (separateForegroundBackground d (optTarget options)))),
                              backgroundPeople = 0,
                              modelUsed = ''SAM-2/YOLO'',
                              inpaintingModel = ''none'' \<rparr>,
                  error = None \<rparr>, s1)"
    using det ne bg' by (rule pipelineBody_short_circuit)
  have c: "filter isInpaintingModel (calls s1) = filter isInpaintingModel (calls s)"
    using det by (rule inpaintingCalls_detectionStage)
  show ?thesis using autoRemove_of_body(1) [OF body] c by simp
qed

theorem no_background_short_circuit_witness:
  "\<exists>r. autoRemoveBackgroundPeople primaryEnv ''u'' defaultOptions initialState
          = (Inr r, \<lparr> world = (), calls = [SAM2] \<rparr>)
        \<and> success r \<and> resultUrl r = Some ''u'' \<and> inpaintingModel (details r) = ''none''"
proof -
  let ?d = "\<lparr> masks = [personMask 0 (300, 250, 400, 500) ''maskA'' (Some 0.9)],
              imageWidth = 1024, imageHeight = 1024 \<rparr>"
  have det: "detectionStage primaryEnv ''u'' (optFallback defaultOptions) initialState =
               (Inr ?d, \<lparr> world = (), calls = [SAM2] \<rparr>)"
    by (rule primary_detection)
  have ne: "masks ?d \<noteq> []" by simp
  have bg: "backgroundMasks (separateForegroundBackground ?d (optTarget defaultOptions)) = []
             \<or> (length (masks ?d) = 1 \<and> 1 \<le> optTarget defaultOptions)"
    by (simp add: optTarget_def defaultOptions_def)
  show ?thesis using no_background_short_circuit [OF det ne bg] by blast
qed

text \<open>
  C2. For a detection result whose masks have pairwise distinct ids and for every
  \<open>targetForegroundCount\<close>, the foreground and background masks returned by
  \<open>separateForegroundBackground\<close> are disjoint and together are the input masks; for a
  \<open>targetForegroundCount\<close> that is not negative, the foreground holds exactly
  \<open>min(targetForegroundCount, number of masks)\<close> masks; a \<open>targetForegroundCount\<close> of
  \<open>0\<close> gives an empty foreground and the whole input as background; an empty input gives
  empty partitions and empty merged mask strings.
\<close>

theorem separate_partition_count:
  assumes "distinct (map mask_id (masks d))"
  shows "set (foregroundMasks (separateForegroundBackground d t))
           \<inter> set (backgroundMasks (separateForegroundBackground d t)) = {}
       \<and> set (foregroundMasks (separateForegroundBackground d t))
           \<union> set (backgroundMasks (separateForegroundBackground d t)) = set (masks d)
       \<and> (0 \<le> t \<longrightarrow> int (length (foregroundMasks (separateForegroundBackground d t)))
                       = min t (int (length (masks d))))
       \<and> foregroundMasks (separateForegroundBackground d 0) = []
       \<and> backgroundMasks (separateForegroundBackground d 0) = masks d
       \<and> separateForegroundBackground (d\<lparr>masks := []\<rparr>) t =
             \<lparr> foregroundMasks = [], backgroundMasks = [], foregroundMask = [],
               backgroundMask = [] \<rparr>"
proof -
  have len: "0 \<le> t \<Longrightarrow> int (length (foregroundMasks (separateForegroundBackground d t)))
                       = min t (int (length (masks d)))"
    using length_foreground [OF assms, of t] by (auto simp: min_def)
  have zero: "foregroundMasks (separateForegroundBackground d 0) = []
            \<and> backgroundMasks (separateForegroundBackground d 0) = masks d"
    by (cases "masks d = []")
       (simp_all add: separate_empty separate_nonempty foregroundIdsOf_def slice0_def)
  have empty: "separateForegroundBackground (d\<lparr>masks := []\<rparr>) t =
             \<lparr> foregroundMasks = [], backgroundMasks = [], foregroundMask = [],
               backgroundMask = [] \<rparr>"
    by (rule separate_empty) simp
  show ?thesis
    using len zero empty separate_partition(2,3) [of d t] by blast
qed

theorem separate_partition_count_witness:
  "set (foregroundMasks (separateForegroundBackground (scenarioB ''maskB'') 1))
     \<inter> set (backgroundMasks (separateForegroundBackground (scenarioB ''maskB'') 1)) = {}
   \<and> set (foregroundMasks (separateForegroundBackground (scenarioB ''maskB'') 1))
     \<union> set (backgroundMasks (separateForegroundBackground (scenarioB ''maskB'') 1))
       = {centeredPerson, cornerPerson ''maskB''}
   \<and> int (length (foregroundMasks (separateForegroundBackground (scenarioB ''maskB'') 1))) = 1"
  using separate_partition_count [of "scenarioB ''maskB''" 1]
  by (simp add: scenarioB_def centeredPerson_def cornerPerson_def)

theorem separate_negative_count_counterexample:
  "distinct (map mask_id (masks (scenarioB ''maskB'')))
   \<and> int (length (foregroundMasks (separateForegroundBackground (scenarioB ''maskB'') (- 1))))
       \<noteq> min (- 1) (int (length (masks (scenarioB ''maskB''))))"
proof -
  have d: "distinct (map mask_id (masks (scenarioB ''maskB'')))"
    by (simp add: scenarioB_def centeredPerson_def cornerPerson_def)
  have "length (foregroundMasks (separateForegroundBackground (scenarioB ''maskB'') (- 1))) = 1"
    using length_foreground [OF d, of "- 1"] by (simp add: scenarioB_def)
  then show ?thesis using d by simp
qed



text \<open>
  C4. For every person mask whose confidence lies in \<open>[0,1]\<close> and whose bounding box lies
  within the image, and for positive image width and height, \<open>calculateForegroundScore\<close>
  returns a final score in \<open>[0,100]\<close>, and each of the five factor scores (position, size,
  clarity, centrality, orientation) lies in \<open>[0,100]\<close>.
\<close>

theorem calculateForegroundScore_in_range:
  assumes "0 \<le> confidence p" and "confidence p \<le> 1"
    and "bbox p = (x, y, w, h)"
    and "0 \<le> x" and "0 \<le> y" and "0 \<le> w" and "0 \<le> h"
    and "x + w \<le> W" and "y + h \<le> H"
    and "0 < W" and "0 < H"
  shows "score (calculateForegroundScore p W H) \<in> {0..100}
       \<and> position (factors (calculateForegroundScore p W H)) \<in> {0..100}
       \<and> size' (factors (calculateForegroundScore p W H)) \<in> {0..100}
       \<and> clarity (factors (calculateForegroundScore p W H)) \<in> {0..100}
       \<and> centrality (factors (calculateForegroundScore p W H)) \<in> {0..100}
       \<and> orientation (factors (calculateForegroundScore p W H)) \<in> {0..100}"
proof -
  have wW: "w \<le> W" and hH: "h \<le> H" using assms by simp_all
  have sz: "0 \<le> calculateSizeScore p W H \<and> calculateSizeScore p W H \<le> 100"
    using assms(3,6,7) wW hH assms(10,11) by (rule size_range)
  have cl: "70 \<le> calculateClarityScore p" using assms(1) by (rule clarity_lower)
  have cu: "calculateClarityScore p \<le> 100" by (rule clarity_upper)
  have po: "0 \<le> calculatePositionScore p W H \<and> calculatePositionScore p W H \<le> 100"
    by (rule position_range)
  have ce: "0 \<le> calculateCentralityScore p W H \<and> calculateCentralityScore p W H \<le> 100"
    by (rule centrality_range)
  have ori: "50 \<le> calculateOrientationScore p W H \<and> calculateOrientationScore p W H \<le> 100"
    by (rule orientation_range)
  show ?thesis using sz cl cu po ce ori
    by (simp add: calculateForegroundScore_def Let_def)
qed

theorem calculateForegroundScore_in_range_witness:
  "score (calculateForegroundScore
       \<lparr> mask_id = ''person_0'', mask = ''m'', bbox = (100, 100, 200, 300), confidence = 0.9,
         centerPoint = (200, 250), area = 60000 \<rparr> 1024 1024) \<in> {0..100}
   \<and> size' (factors (calculateForegroundScore
       \<lparr> mask_id = ''person_0'', mask = ''m'', bbox = (100, 100, 200, 300), confidence = 0.9,
         centerPoint = (200, 250), area = 60000 \<rparr> 1024 1024)) \<in> {0..100}"
  using calculateForegroundScore_in_range
    [of "\<lparr> mask_id = ''person_0'', mask = ''m'', bbox = (100, 100, 200, 300), confidence = 0.9,
         centerPoint = (200, 250), area = 60000 \<rparr>" 100 100 200 300 1024 1024]
  by simp

text \<open>
  C5. For a detection result with exactly two masks with distinct ids, one whose box is
  centred on the image centre and covers 20% of the image and has a confidence that is not
  negative, and one whose box is centred on an image corner and covers 2% of the image,
  \<open>separateForegroundBackground\<close> with \<open>targetForegroundCount = 1\<close> puts the centred
  person in the foreground and the corner person in the background, and
  \<open>generateInpaintingMask\<close> on that background returns the corner person's own mask
  reference, which is non-empty when that reference is non-empty.
\<close>

theorem scenarioB_separation:
  assumes "masks d = [c, k] \<or> masks d = [k, c]"
    and "mask_id c \<noteq> mask_id k"
    and "0 < imageWidth d" and "0 < imageHeight d"
    and "0 \<le> confidence c"
    and "bbox c = (cx, cy, cw, ch)"
    and "cx + cw / 2 = imageWidth d / 2" and "cy + ch / 2 = imageHeight d / 2"
    and "cw * ch = 0.2 * (imageWidth d * imageHeight d)"
    and "bbox k = (kx, ky, kw, kh)"
    and "kx + kw / 2 = 0 \<or> kx + kw / 2 = imageWidth d"
    and "ky + kh / 2 = 0 \<or> ky + kh / 2 = imageHeight d"
    and "kw * kh = 0.02 * (imageWidth d * imageHeight d)"
  shows "foregroundMasks (separateForegroundBackground d 1) = [c]
       \<and> backgroundMasks (separateForegroundBackground d 1) = [k]
       \<and> generateInpaintingMask (backgroundMasks (separateForegroundBackground d 1))
            (imageWidth d) (imageHeight d) = mask k
       \<and> (mask k \<noteq> [] \<longrightarrow>
            generateInpaintingMask (backgroundMasks (separateForegroundBackground d 1))
              (imageWidth d) (imageHeight d) \<noteq> [])"
  using scenarioB_partition [OF assms] by (simp add: generateInpaintingMask_def)

theorem scenarioB_separation_witness:
  "foregroundMasks (separateForegroundBackground (scenarioB ''maskB'') 1) = [centeredPerson]
   \<and> backgroundMasks (separateForegroundBackground (scenarioB ''maskB'') 1) = [cornerPerson ''maskB'']
   \<and> generateInpaintingMask (backgroundMasks (separateForegroundBackground (scenarioB ''maskB'') 1))
        1000 1000 = ''maskB''"
  using scenarioB_separation [of "scenarioB ''maskB''" centeredPerson "cornerPerson ''maskB''"
          300 250 400 500 950 900 100 200]
  by (simp add: scenarioB_def centeredPerson_def cornerPerson_def generateInpaintingMask_def)

theorem scenarioB_empty_mask_counterexample:
  "masks (scenarioB []) = [centeredPerson, cornerPerson []]
   \<and> foregroundMasks (separateForegroundBackground (scenarioB []) 1) = [centeredPerson]
   \<and> backgroundMasks (separateForegroundBackground (scenarioB []) 1) = [cornerPerson []]
   \<and> generateInpaintingMask (backgroundMasks (separateForegroundBackground (scenarioB []) 1))
        (imageWidth (scenarioB [])) (imageHeight (scenarioB [])) = []"
  using scenarioB_facts [of "[]"]
  by (simp add: generateInpaintingMask_def scenarioB_def cornerPerson_def)

text \<open>
  C6. In the loop of \<open>autoRemoveBackgroundPeopleWithRetry\<close> every wait stands between a
  failed attempt \<open>k - 1\<close> and the attempt \<open>k\<close> (\<open>2 \<le> k \<le> maxRetries\<close>) and lasts
  \<open>min(1000 * 2^(k-2), 5000)\<close> milliseconds, in integer arithmetic: whatever the attempts
  return, the events are attempt 1 followed by such wait-and-attempt pairs up to some
  attempt \<open>m \<le> maxRetries\<close>, and up to \<open>maxRetries\<close> itself when every attempt fails.
  The statement is about the wrapper's loop over any attempt; the wrapper is that loop run
  on the pipeline (\<open>retry_wrapper_is_loop\<close>).
\<close>

theorem retry_backoff_delays:
  "(\<exists>m. m \<le> N \<and> fst (snd (attemptLoop run N 1 [] s)) =
        (if 1 \<le> N then
           Attempt 1 # concat (map (\<lambda>k. [Wait (min (1000 * 2 ^ nat (k - 2)) 5000), Attempt k]) [2..m])
         else []))
   \<and> ((\<forall>s. failed (fst (run s))) \<and> 1 \<le> N \<longrightarrow>
        fst (snd (attemptLoop run N 1 [] s)) =
          Attempt 1 # concat (map (\<lambda>k. [Wait (min (1000 * 2 ^ nat (k - 2)) 5000), Attempt k]) [2..N]))"
proof -
  have two: "(1::int) + 1 = 2" by simp
  have "\<exists>m. m \<le> N \<and> fst (snd (attemptLoop run N 1 [] s)) =
        [] @ (if 1 \<le> N then Attempt 1 # backoffSchedule (1 + 1) m else [])"
    by (rule trace_shape) (rule refl)
  then have a: "\<exists>m. m \<le> N \<and> fst (snd (attemptLoop run N 1 [] s)) =
        (if 1 \<le> N then
           Attempt 1 # concat (map (\<lambda>k. [Wait (min (1000 * 2 ^ nat (k - 2)) 5000), Attempt k]) [2..m])
         else [])"
    by (simp only: backoffSchedule_def two append_Nil)
  have "fst (snd (attemptLoop run N 1 [] s)) = Attempt 1 # backoffSchedule (1 + 1) N"
    if "\<forall>s. failed (fst (run s))" and "1 \<le> N"
    using attemptLoop_all_fail [OF that refl, of "[]" s] by simp
  then have b: "(\<forall>s. failed (fst (run s))) \<and> 1 \<le> N \<longrightarrow>
        fst (snd (attemptLoop run N 1 [] s)) =
          Attempt 1 # concat (map (\<lambda>k. [Wait (min (1000 * 2 ^ nat (k - 2)) 5000), Attempt k]) [2..N])"
    by (simp only: backoffSchedule_def two) blast
  show ?thesis using a b by (rule conjI)
qed

theorem retry_backoff_delays_witness:
  "fst (snd (autoRemoveBackgroundPeopleWithRetry offlineEnv ''u''
               (defaultOptions\<lparr>maxRetries := Some 5\<rparr>) initialState)) =
     [Attempt 1, Wait 1000, Attempt 2, Wait 2000, Attempt 3, Wait 4000, Attempt 4, Wait 5000,
      Attempt 5]"
proof -
  let ?opts = "defaultOptions\<lparr>maxRetries := Some 5\<rparr>"
  let ?run = "autoRemoveBackgroundPeople offlineEnv ''u'' ?opts"
  have h: "\<forall>s. failed (fst (?run s))"
    by (simp add: offline_pipeline failed_def failureResult_def)
  have five: "(1::int) \<le> 5" by simp
  have m: "optMaxRetries ?opts = 5" by (simp add: optMaxRetries_def)
  have u: "[2..5] = [2, 3, 4, 5::int]" by (simp add: upto_rec1)
  have "fst (snd (attemptLoop ?run 5 1 [] initialState)) =
          Attempt 1 # concat (map (\<lambda>k. [Wait (min (1000 * 2 ^ nat (k - 2)) 5000), Attempt k]) [2..5])"
    using retry_backoff_delays [of 5 ?run initialState] h five by blast
  then show ?thesis
    unfolding autoRemoveBackgroundPeopleWithRetry_def Let_def m u by simp
qed

text \<open>
  C7. For a preferred model given to \<open>smartInpainting\<close> under one of the names
  \<^verbatim>\<open>stability\<close>, \<^verbatim>\<open>runwayml\<close>, \<^verbatim>\<open>flux\<close>, that back-end is invoked first; when that
  attempt fails, the ordered list (stability, runwayml, flux) is gone through from its
  beginning, the preferred model included. For any other name no back-end is invoked for
  it, and the list is gone through from its beginning. When every attempt made fails,
  \<open>smartInpainting\<close> throws the error \<^verbatim>\<open>"All inpainting models failed"\<close>.
\<close>

theorem smartInpainting_preferred_first:
  "(pm \<in> {''stability'', ''runwayml'', ''flux''} \<longrightarrow>
      (\<exists>rest. calls (snd (smartInpainting env imageUrl maskUrl prompt (Some pm) s)) =
                calls s @ modelOfName pm # rest))
   \<and> (\<forall>e s1. preferredAttempt pm env imageUrl maskUrl (promptOrDefault prompt) s
                = Some (Inl e, s1) \<longrightarrow>
              smartInpainting env imageUrl maskUrl prompt (Some pm) s =
                tryModels models env imageUrl maskUrl (promptOrDefault prompt) s1)
   \<and> (pm \<notin> {''stability'', ''runwayml'', ''flux''} \<longrightarrow>
        smartInpainting env imageUrl maskUrl prompt (Some pm) s =
          tryModels models env imageUrl maskUrl (promptOrDefault prompt) s)
   \<and> (\<forall>e1 e2 e3 s1 s2 s3 s4.
        (pm \<in> {''stability'', ''runwayml'', ''flux''}
           \<and> (\<exists>e0. preferredAttempt pm env imageUrl maskUrl (promptOrDefault prompt) s
                      = Some (Inl e0, s1))
         \<or> pm \<notin> {''stability'', ''runwayml'', ''flux''} \<and> s1 = s)
        \<and> inpaintWithStabilityAI env imageUrl maskUrl (promptOrDefault prompt) s1 = (Inl e1, s2)
        \<and> inpaintWithRunwayML env imageUrl maskUrl (promptOrDefault prompt) s2 = (Inl e2, s3)
        \<and> inpaintWithFLUX env imageUrl maskUrl (promptOrDefault prompt) s3 = (Inl e3, s4)
      \<longrightarrow> smartInpainting env imageUrl maskUrl prompt (Some pm) s =
             (Inl (Error ''All inpainting models failed''), s4)
          \<and> calls s4 =
             calls s
             @ (if pm \<in> {''stability'', ''runwayml'', ''flux''} then [modelOfName pm] else [])
             @ [StabilityInpainting, RunwayInpainting, FluxKontext])"
proof -
  let ?p = "promptOrDefault prompt"
  let ?known = "pm \<in> {''stability'', ''runwayml'', ''flux''}"
  have second: "smartInpainting env imageUrl maskUrl prompt (Some pm) s =
                  tryModels models env imageUrl maskUrl ?p s1'"
    if pa: "preferredAttempt pm env imageUrl maskUrl ?p s = Some (Inl e, s1')" for e s1'
  proof -
    have "pm \<noteq> []" using pa by (auto simp: preferredAttempt_def split: if_splits)
    then show ?thesis using refl pa by (rule smartInpainting_preferred_failed)
  qed
  have unknown: "smartInpainting env imageUrl maskUrl prompt (Some pm) s =
                  tryModels models env imageUrl maskUrl ?p s" if "\<not> ?known"
    using that by (rule smartInpainting_unknown_name)
  have first: "\<exists>rest. calls (snd (smartInpainting env imageUrl maskUrl prompt (Some pm) s)) =
                  calls s @ modelOfName pm # rest"
    if known: ?known
  proof -
    have ne: "pm \<noteq> []" using known by auto
    obtain label used where pa: "preferredAttempt pm env imageUrl maskUrl ?p s =
        Some (inpaintVia (modelOfName pm) label used env imageUrl maskUrl ?p s)"
      using preferredAttempt_known [OF known] by blast
    obtain r s1 where r: "inpaintVia (modelOfName pm) label used env imageUrl maskUrl ?p s = (r, s1)"
      by (cases "inpaintVia (modelOfName pm) label used env imageUrl maskUrl ?p s")
    have c1: "calls s1 = calls s @ [modelOfName pm]"
      using calls_inpaintVia [of "modelOfName pm" label used env imageUrl maskUrl ?p s] r by simp
    show ?thesis
    proof (cases r)
      case (Inr res)
      have "smartInpainting env imageUrl maskUrl prompt (Some pm) s = (Inr res, s1)"
        using ne refl by (rule smartInpainting_preferred_ok) (simp add: pa r Inr)
      then show ?thesis using c1 by simp
    next
      case (Inl e)
      have "smartInpainting env imageUrl maskUrl prompt (Some pm) s =
              tryModels models env imageUrl maskUrl ?p s1"
        by (rule second) (simp add: pa r Inl)
      moreover obtain cs where
        "calls (snd (tryModels models env imageUrl maskUrl ?p s1)) = calls s1 @ cs"
        using calls_tryModels_models by blast
      ultimately show ?thesis using c1 by simp
    qed
  qed
  have fourth: "smartInpainting env imageUrl maskUrl prompt (Some pm) s =
             (Inl (Error ''All inpainting models failed''), s4)
          \<and> calls s4 = calls s @ (if ?known then [modelOfName pm] else [])
             @ [StabilityInpainting, RunwayInpainting, FluxKontext]"
    if pre: "?known \<and> (\<exists>e0. preferredAttempt pm env imageUrl maskUrl ?p s = Some (Inl e0, s1))
             \<or> \<not> ?known \<and> s1 = s"
      and a: "inpaintWithStabilityAI env imageUrl maskUrl ?p s1 = (Inl e1, s2)"
      and b: "inpaintWithRunwayML env imageUrl maskUrl ?p s2 = (Inl e2, s3)"
      and c: "inpaintWithFLUX env imageUrl maskUrl ?p s3 = (Inl e3, s4)"
    for e1 e2 e3 s1 s2 s3 s4
  proof (cases ?known)
    case False
    then have s1: "s1 = s" using pre by blast
    show ?thesis
      using unknown [OF False] tryModels_attempts_fail [OF a b c] False by (simp add: s1)
  next
    case True
    then obtain e0 where pa0: "preferredAttempt pm env imageUrl maskUrl ?p s = Some (Inl e0, s1)"
      using pre by blast
    obtain label used where pa: "preferredAttempt pm env imageUrl maskUrl ?p s =
        Some (inpaintVia (modelOfName pm) label used env imageUrl maskUrl ?p s)"
      using preferredAttempt_known [OF True] by blast
    have "inpaintVia (modelOfName pm) label used env imageUrl maskUrl ?p s = (Inl e0, s1)"
      using pa pa0 by simp
    then have c1: "calls s1 = calls s @ [modelOfName pm]"
      using calls_inpaintVia [of "modelOfName pm" label used env imageUrl maskUrl ?p s] by simp
    show ?thesis
      using second [OF pa0] tryModels_attempts_fail [OF a b c] True by (simp add: c1)
  qed
  show ?thesis using first second unknown fourth by blast
qed

theorem smartInpainting_preferred_first_witness:
  "smartInpainting offlineEnv ''u'' ''m'' None (Some ''flux'') initialState =
     (Inl (Error ''All inpainting models failed''),
      \<lparr> world = (),
        calls = [FluxKontext, StabilityInpainting, RunwayInpainting, FluxKontext] \<rparr>)
   \<and> smartInpainting offlineEnv ''u'' ''m'' None (Some ''dalle'') initialState =
     (Inl (Error ''All inpainting models failed''),
      \<lparr> world = (), calls = [StabilityInpainting, RunwayInpainting, FluxKontext] \<rparr>)"
proof -
  let ?p = "promptOrDefault None"
  let ?s1 = "\<lparr> world = (), calls = [FluxKontext] \<rparr>"
  let ?s2 = "\<lparr> world = (), calls = [FluxKontext, StabilityInpainting] \<rparr>"
  let ?s3 = "\<lparr> world = (), calls = [FluxKontext, StabilityInpainting, RunwayInpainting] \<rparr>"
  let ?s4 = "\<lparr> world = (),
               calls = [FluxKontext, StabilityInpainting, RunwayInpainting, FluxKontext] \<rparr>"
  let ?t2 = "\<lparr> world = (), calls = [StabilityInpainting] \<rparr>"
  let ?t3 = "\<lparr> world = (), calls = [StabilityInpainting, RunwayInpainting] \<rparr>"
  let ?t4 = "\<lparr> world = (), calls = [StabilityInpainting, RunwayInpainting, FluxKontext] \<rparr>"
  have known: "''flux'' \<in> {''stability'', ''runwayml'', ''flux''}" by simp
  have pa: "\<exists>e0. preferredAttempt ''flux'' offlineEnv ''u'' ''m'' ?p initialState
              = Some (Inl e0, ?s1)"
    by (simp add: preferredAttempt_def inpaintWithFLUX_def offline_inpaintVia initialState_def)
  have a: "inpaintWithStabilityAI offlineEnv ''u'' ''m'' ?p ?s1 =
             (Inl (Error ''Failed to inpaint with Stability AI: offline''), ?s2)"
    by (simp add: inpaintWithStabilityAI_def offline_inpaintVia)
  have b: "inpaintWithRunwayML offlineEnv ''u'' ''m'' ?p ?s2 =
             (Inl (Error ''Failed to inpaint with RunwayML: offline''), ?s3)"
    by (simp add: inpaintWithRunwayML_def offline_inpaintVia)
  have c: "inpaintWithFLUX offlineEnv ''u'' ''m'' ?p ?s3 =
             (Inl (Error ''Failed to inpaint with FLUX: offline''), ?s4)"
    by (simp add: inpaintWithFLUX_def offline_inpaintVia)
  have unknown: "''dalle'' \<notin> {''stability'', ''runwayml'', ''flux''}" by simp
  have a': "inpaintWithStabilityAI offlineEnv ''u'' ''m'' ?p initialState =
             (Inl (Error ''Failed to inpaint with Stability AI: offline''), ?t2)"
    by (simp add: inpaintWithStabilityAI_def offline_inpaintVia initialState_def)
  have b': "inpaintWithRunwayML offlineEnv ''u'' ''m'' ?p ?t2 =
             (Inl (Error ''Failed to inpaint with RunwayML: offline''), ?t3)"
    by (simp add: inpaintWithRunwayML_def offline_inpaintVia)
  have c': "inpaintWithFLUX offlineEnv ''u'' ''m'' ?p ?t3 =
             (Inl (Error ''Failed to inpaint with FLUX: offline''), ?t4)"
    by (simp add: inpaintWithFLUX_def offline_inpaintVia)
  have pre: "(''flux'' \<in> {''stability'', ''runwayml'', ''flux''}
           \<and> (\<exists>e0. preferredAttempt ''flux'' offlineEnv ''u'' ''m'' ?p initialState
                      = Some (Inl e0, ?s1))
         \<or> ''flux'' \<notin> {''stability'', ''runwayml'', ''flux''} \<and> ?s1 = initialState)
        \<and> inpaintWithStabilityAI offlineEnv ''u'' ''m'' ?p ?s1
            = (Inl (Error ''Failed to inpaint with Stability AI: offline''), ?s2)
        \<and> inpaintWithRunwayML offlineEnv ''u'' ''m'' ?p ?s2
            = (Inl (Error ''Failed to inpaint with RunwayML: offline''), ?s3)
        \<and> inpaintWithFLUX offlineEnv ''u'' ''m'' ?p ?s3
            = (Inl (Error ''Failed to inpaint with FLUX: offline''), ?s4)"
    using known pa a b c by (intro conjI disjI1)
  have pre': "(''dalle'' \<in> {''stability'', ''runwayml'', ''flux''}
           \<and> (\<exists>e0. preferredAttempt ''dalle'' offlineEnv ''u'' ''m'' ?p initialState
                      = Some (Inl e0, initialState))
         \<or> ''dalle'' \<notin> {''stability'', ''runwayml'', ''flux''} \<and> initialState = initialState)
        \<and> inpaintWithStabilityAI offlineEnv ''u'' ''m'' ?p initialState
            = (Inl (Error ''Failed to inpaint with Stability AI: offline''), ?t2)
        \<and> inpaintWithRunwayML offlineEnv ''u'' ''m'' ?p ?t2
            = (Inl (Error ''Failed to inpaint with RunwayML: offline''), ?t3)
        \<and> inpaintWithFLUX offlineEnv ''u'' ''m'' ?p ?t3
            = (Inl (Error ''Failed to inpaint with FLUX: offline''), ?t4)"
    using unknown a' b' c' by (intro conjI disjI2 refl)
  note flux = smartInpainting_preferred_first
      [of "''flux''" offlineEnv "''u''" "''m''" None initialState,
       THEN conjunct2, THEN conjunct2, THEN conjunct2, rule_format, OF pre, THEN conjunct1]
  note dalle = smartInpainting_preferred_first
      [of "''dalle''" offlineEnv "''u''" "''m''" None initialState,
       THEN conjunct2, THEN conjunct2, THEN conjunct2, rule_format, OF pre', THEN conjunct1]
  show ?thesis using flux dalle by (rule conjI)
qed

theorem smartInpainting_unknown_name_counterexample:
  "smartInpainting offlineEnv ''u'' ''m'' None (Some ''FLUX'') initialState =
     (Inl (Error ''All inpainting models failed''),
      \<lparr> world = (), calls = [StabilityInpainting, RunwayInpainting, FluxKontext] \<rparr>)
   \<and> smartInpainting
       (constEnv (Inl (Thrown ''offline'')) (Inl (Thrown ''offline'')) (Inl (Thrown ''offline''))
          (Inr (Some [''https://result''])))
       ''u'' ''m'' None (Some ''FLUX'') initialState =
     (Inr \<lparr> ir_resultUrl = ''https://result'', ir_processingTime = 0,
            ir_modelUsed = ''stability-ai/stable-diffusion-inpainting'' \<rparr>,
      \<lparr> world = (), calls = [StabilityInpainting] \<rparr>)"
proof -
  have u: "''FLUX'' \<notin> {''stability'', ''runwayml'', ''flux''}" by simp
  have 1: "smartInpainting offlineEnv ''u'' ''m'' None (Some ''FLUX'') initialState =
     (Inl (Error ''All inpainting models failed''),
      \<lparr> world = (), calls = [StabilityInpainting, RunwayInpainting, FluxKontext] \<rparr>)"
    unfolding smartInpainting_unknown_name [OF u]
    by (simp add: models_def inpaintWithStabilityAI_def inpaintWithRunwayML_def
          inpaintWithFLUX_def offline_inpaintVia initialState_def)
  have 2: "smartInpainting
       (constEnv (Inl (Thrown ''offline'')) (Inl (Thrown ''offline'')) (Inl (Thrown ''offline''))
          (Inr (Some [''https://result''])))
       ''u'' ''m'' None (Some ''FLUX'') initialState =
     (Inr \<lparr> ir_resultUrl = ''https://result'', ir_processingTime = 0,
            ir_modelUsed = ''stability-ai/stable-diffusion-inpainting'' \<rparr>,
      \<lparr> world = (), calls = [StabilityInpainting] \<rparr>)"
    unfolding smartInpainting_unknown_name [OF u]
    by (simp add: models_def inpaintWithStabilityAI_def inpaintVia_def replicate_run_def
          constEnv_def initialState_def)
  show ?thesis using 1 2 by (rule conjI)
qed

text \<open>
  C8. For every input, \<open>autoRemoveBackgroundPeople\<close> returns a result and lets nothing
  that is thrown in a stage escape; and every returned result without success carries an
  error string that is not empty.
\<close>

theorem pipeline_never_throws:
  "\<exists>r s1. autoRemoveBackgroundPeople env imageUrl options s = (Inr r, s1)
          \<and> (\<not> success r \<longrightarrow> (\<exists>msg. error r = Some msg \<and> msg \<noteq> []))"
proof -
  obtain x s1 where b: "pipelineBody env imageUrl options (now env (world s)) s = (x, s1)"
    by (cases "pipelineBody env imageUrl options (now env (world s)) s")
  show ?thesis
  proof (cases x)
    case (Inr r)
    have "success r \<or> error r = Some ''No people detected in the image''"
      using b unfolding Inr by (rule pipelineBody_result)
    then have "\<not> success r \<longrightarrow> (\<exists>msg. error r = Some msg \<and> msg \<noteq> [])" by auto
    then show ?thesis using autoRemove_of_body(1) [OF b [unfolded Inr]] by blast
  next
    case (Inl e)
    have "message_of e \<noteq> []" using b unfolding Inl by (rule pipelineBody_error)
    then show ?thesis
      using autoRemove_of_body(2) [OF b [unfolded Inl]] by (simp add: failureResult_def)
  qed
qed

theorem pipeline_never_throws_witness:
  "\<exists>r s1. autoRemoveBackgroundPeople offlineEnv ''u'' defaultOptions initialState = (Inr r, s1)
          \<and> \<not> success r
          \<and> error r =
              Some ''Both SAM-2 and YOLO detection failed: Failed to detect people: offline''
          \<and> (\<exists>msg. error r = Some msg \<and> msg \<noteq> [])"
proof -
  obtain r s1 where eq: "autoRemoveBackgroundPeople offlineEnv ''u'' defaultOptions initialState
                           = (Inr r, s1)"
    and imp: "\<not> success r \<longrightarrow> (\<exists>msg. error r = Some msg \<and> msg \<noteq> [])"
    using pipeline_never_throws [of offlineEnv "''u''" defaultOptions initialState] by blast
  have r: "r = failureResult 0
                ''Both SAM-2 and YOLO detection failed: Failed to detect people: offline''"
    using eq by (simp add: offline_pipeline)
  have "\<not> success r" by (simp add: r failureResult_def)
  moreover have "error r =
      Some ''Both SAM-2 and YOLO detection failed: Failed to detect people: offline''"
    by (simp add: r failureResult_def)
  ultimately show ?thesis using eq imp by blast
qed

text \<open>
  C9. When the primary detector throws, \<open>fallbackToYOLO\<close> is true and the fallback chain
  finds exactly one box whose refinement returns a mask, the pipeline returns a result that
  is a success when \<open>targetForegroundCount \<ge> 1\<close> and otherwise exactly when inpainting
  succeeds; a success has \<open>peopleDetected = 1\<close> and \<open>modelUsed\<close> equal to the fixed label
  \<^verbatim>\<open>"SAM-2/YOLO"\<close>; a result without success has \<open>peopleDetected = 0\<close>, \<open>modelUsed\<close>
  equal to \<^verbatim>\<open>"none"\<close> and the error of the failed inpainting. Every successful result
  of the pipeline carries that same label, whichever detector produced the masks.
\<close>

theorem fallback_single_person:
  assumes prim: "detectPeopleInImage env imageUrl s = (Inl e, s1)"
    and fb: "optFallback options"
    and yolo: "run_yolo env imageUrl (world s1) = (Inr (Some [box]), w2)"
    and sam: "run_sam env imageUrl (bboxOrDefault box) w2 = (Inr (Some m), w3)"
    and m: "m \<noteq> []"
  shows "(\<exists>r s'. autoRemoveBackgroundPeople env imageUrl options s = (Inr r, s')
            \<and> (success r \<longleftrightarrow>
                 1 \<le> optTarget options
                 \<or> \<not> isl (fst (smartInpainting env imageUrl m
                       (Some (generateOptimizedPrompt (customPrompt options) (Some ''outdoor'')))
                       (preferredInpaintingModel options)
                       \<lparr> world = w3, calls = calls s1 @ [YOLOv8, SAM] \<rparr>)))
            \<and> (success r \<longrightarrow>
                 peopleDetected (details r) = 1 \<and> modelUsed (details r) = ''SAM-2/YOLO'')
            \<and> (\<not> success r \<longrightarrow>
                 peopleDetected (details r) = 0 \<and> modelUsed (details r) = ''none''
                 \<and> error r = Some ''All inpainting models failed''))
       \<and> (autoRemoveBackgroundPeople env' imageUrl' options' s' = (Inr r', s'') \<and> success r'
            \<longrightarrow> modelUsed (details r') = ''SAM-2/YOLO'')"
proof -
  let ?d = "\<lparr> masks = [personMask 0 (bboxOrDefault box) m (item_confidence box)],
              imageWidth = 1024, imageHeight = 1024 \<rparr>"
  let ?s2 = "\<lparr> world = w3, calls = calls s1 @ [YOLOv8, SAM] \<rparr>"
  let ?smart = "smartInpainting env imageUrl m
                  (Some (generateOptimizedPrompt (customPrompt options) (Some ''outdoor'')))
                  (preferredInpaintingModel options) ?s2"
  have chain: "detectPeopleWithYOLO env imageUrl s1 = (Inr ?d, ?s2)"
    using yolo sam m by (rule yolo_single_box)
  have det: "detectionStage env imageUrl (optFallback options) s = (Inr ?d, ?s2)"
    using detectionStage_fallback [OF prim chain] fb by simp
  have one: "length (masks ?d) = 1" by simp
  have label: "autoRemoveBackgroundPeople env' imageUrl' options' s' = (Inr r', s'') \<and> success r'
            \<longrightarrow> modelUsed (details r') = ''SAM-2/YOLO''"
    using autoRemove_success_label by blast
  have main: "\<exists>r s'. autoRemoveBackgroundPeople env imageUrl options s = (Inr r, s')
            \<and> (success r \<longleftrightarrow> 1 \<le> optTarget options \<or> \<not> isl (fst ?smart))
            \<and> (success r \<longrightarrow>
                 peopleDetected (details r) = 1 \<and> modelUsed (details r) = ''SAM-2/YOLO'')
            \<and> (\<not> success r \<longrightarrow>
                 peopleDetected (details r) = 0 \<and> modelUsed (details r) = ''none''
                 \<and> error r = Some ''All inpainting models failed'')"
  proof (cases "1 \<le> optTarget options")
    case True
    show ?thesis using short_circuit_result [OF det one True] True by simp
  next
    case False
    then have t: "optTarget options \<le> 0" by simp
    have bg: "backgroundMasks (separateForegroundBackground ?d (optTarget options)) = masks ?d"
      using one t by (rule single_mask_all_background)
    have fg: "foregroundMasks (separateForegroundBackground ?d (optTarget options)) = []"
      using one t by (rule single_mask_all_background)
    have mk: "generateInpaintingMask
                (backgroundMasks (separateForegroundBackground ?d (optTarget options)))
                (imageWidth ?d) (imageHeight ?d) = m"
      by (simp add: bg generateInpaintingMask_def mask_personMask)
    have body: "pipelineBody env imageUrl options (now env (world s)) s =
        (case ?smart of
           (Inl err, s2) \<Rightarrow> (Inl err, s2)
         | (Inr inpaintingResult, s2) \<Rightarrow>
            (Inr \<lparr> success = True, resultUrl = Some (ir_resultUrl inpaintingResult),
                 processingTime = now env (world s2) - now env (world s),
                 details =
                   \<lparr> peopleDetected = int (length (masks ?d)),
                     foregroundPeople = int (length (foregroundMasks
                        (separateForegroundBackground ?d (optTarget options)))),
                     backgroundPeople = int (length (backgroundMasks
                        (separateForegroundBackground ?d (optTarget options)))),
                     modelUsed = ''SAM-2/YOLO'',
                     inpaintingModel = ir_modelUsed inpaintingResult \<rparr>,
                 error = None \<rparr>, s2))"
      by (rule pipelineBody_inpaint [OF det _ _ mk m]) (simp_all add: bg)
    obtain x s3 where x: "?smart = (x, s3)" by (cases ?smart)
    show ?thesis
    proof (cases x)
      case (Inl err)
      have err: "err = Error ''All inpainting models failed''"
        using x unfolding Inl by (rule smartInpainting_error)
      have b: "pipelineBody env imageUrl options (now env (world s)) s = (Inl err, s3)"
        using body by (simp add: x Inl)
      show ?thesis
        using autoRemove_of_body(2) [OF b] False
        by (simp add: x Inl err failureResult_def message_of_def)
    next
      case (Inr ir)
      have b: "pipelineBody env imageUrl options (now env (world s)) s =
        (Inr \<lparr> success = True, resultUrl = Some (ir_resultUrl ir),
                 processingTime = now env (world s3) - now env (world s),
                 details =
                   \<lparr> peopleDetected = 1, foregroundPeople = 0, backgroundPeople = 1,
                     modelUsed = ''SAM-2/YOLO'', inpaintingModel = ir_modelUsed ir \<rparr>,
                 error = None \<rparr>, s3)"
        using body by (simp add: x Inr bg fg)
      show ?thesis
        using autoRemove_of_body(1) [OF b] by (simp add: x Inr)
    qed
  qed
  show ?thesis using main label by (rule conjI)
qed

theorem fallback_single_person_witness:
  "(\<exists>r s'. autoRemoveBackgroundPeople fallbackEnv ''u'' defaultOptions initialState = (Inr r, s')
        \<and> success r \<and> peopleDetected (details r) = 1
        \<and> modelUsed (details r) = ''SAM-2/YOLO'')
   \<and> (\<exists>r s'. autoRemoveBackgroundPeople fallbackEnv ''u''
                (defaultOptions\<lparr>targetForegroundCount := Some 0\<rparr>) initialState = (Inr r, s')
        \<and> \<not> success r \<and> peopleDetected (details r) = 0 \<and> modelUsed (details r) = ''none''
        \<and> error r = Some ''All inpainting models failed'')"
proof -
  let ?s1 = "\<lparr> world = (), calls = [SAM2] \<rparr> :: unit state"
  let ?zero = "defaultOptions\<lparr>targetForegroundCount := Some 0\<rparr>"
  have prim: "detectPeopleInImage fallbackEnv ''u'' initialState =
                (Inl (Error ''Failed to detect people: offline''), ?s1)"
    by (rule fallback_detection)
  have yolo: "run_yolo fallbackEnv ''u'' (world ?s1) = (Inr (Some [onePersonItem]), ())"
    by (rule fallback_services)
  have sam: "run_sam fallbackEnv ''u'' (bboxOrDefault onePersonItem) () = (Inr (Some ''maskA''), ())"
    by (rule fallback_services)
  have m: "''maskA'' \<noteq> []" by simp
  have fb: "optFallback defaultOptions" "optFallback ?zero"
    by (simp_all add: optFallback_def defaultOptions_def)
  have t1: "1 \<le> optTarget defaultOptions" by (simp add: optTarget_def defaultOptions_def)
  have t0: "\<not> 1 \<le> optTarget ?zero" by (simp add: optTarget_def)
  have pref: "preferredInpaintingModel ?zero = None" by (simp add: defaultOptions_def)
  obtain r s' where a: "autoRemoveBackgroundPeople fallbackEnv ''u'' defaultOptions initialState
                         = (Inr r, s')"
    and a1: "success r \<longleftrightarrow> 1 \<le> optTarget defaultOptions
        \<or> \<not> isl (fst (smartInpainting fallbackEnv ''u'' ''maskA''
                 (Some (generateOptimizedPrompt (customPrompt defaultOptions) (Some ''outdoor'')))
                 (preferredInpaintingModel defaultOptions)
                 \<lparr> world = (), calls = calls ?s1 @ [YOLOv8, SAM] \<rparr>))"
    and a2: "success r \<longrightarrow>
               peopleDetected (details r) = 1 \<and> modelUsed (details r) = ''SAM-2/YOLO''"
    using fallback_single_person [OF prim fb(1) yolo sam m, THEN conjunct1] by auto
  obtain q s'' where b: "autoRemoveBackgroundPeople fallbackEnv ''u'' ?zero initialState
                         = (Inr q, s'')"
    and b1: "success q \<longleftrightarrow> 1 \<le> optTarget ?zero
        \<or> \<not> isl (fst (smartInpainting fallbackEnv ''u'' ''maskA''
                 (Some (generateOptimizedPrompt (customPrompt ?zero) (Some ''outdoor'')))
                 (preferredInpaintingModel ?zero)
                 \<lparr> world = (), calls = calls ?s1 @ [YOLOv8, SAM] \<rparr>))"
    and b2: "\<not> success q \<longrightarrow>
               peopleDetected (details q) = 0 \<and> modelUsed (details q) = ''none''
               \<and> error q = Some ''All inpainting models failed''"
    using fallback_single_person [OF prim fb(2) yolo sam m, THEN conjunct1] by auto
  have sr: "success r" using a1 t1 by simp
  have nq: "\<not> success q" using b1 t0 by (simp add: pref fallback_smartInpainting)
  have first: "\<exists>r s'. autoRemoveBackgroundPeople fallbackEnv ''u'' defaultOptions initialState
                  = (Inr r, s')
        \<and> success r \<and> peopleDetected (details r) = 1
        \<and> modelUsed (details r) = ''SAM-2/YOLO''"
    using a a2 sr by (intro exI [of _ r] exI [of _ s']) simp
  have second: "\<exists>r s'. autoRemoveBackgroundPeople fallbackEnv ''u'' ?zero initialState
                  = (Inr r, s')
        \<and> \<not> success r \<and> peopleDetected (details r) = 0 \<and> modelUsed (details r) = ''none''
        \<and> error r = Some ''All inpainting models failed''"
    using b b2 nq by (intro exI [of _ q] exI [of _ s'']) simp
  show ?thesis using first second by (rule conjI)
qed

theorem fallback_label_counterexample:
  "autoRemoveBackgroundPeople fallbackEnv ''u'' defaultOptions initialState =
     (Inr \<lparr> success = True, resultUrl = Some ''u'', processingTime = 0,
            details = \<lparr> peopleDetected = 1, foregroundPeople = 1, backgroundPeople = 0,
                        modelUsed = ''SAM-2/YOLO'', inpaintingModel = ''none'' \<rparr>,
            error = None \<rparr>,
      \<lparr> world = (), calls = [SAM2, YOLOv8, SAM] \<rparr>)
   \<and> autoRemoveBackgroundPeople primaryEnv ''u'' defaultOptions initialState =
     (Inr \<lparr> success = True, resultUrl = Some ''u'', processingTime = 0,
            details = \<lparr> peopleDetected = 1, foregroundPeople = 1, backgroundPeople = 0,
                        modelUsed = ''SAM-2/YOLO'', inpaintingModel = ''none'' \<rparr>,
            error = None \<rparr>,
      \<lparr> world = (), calls = [SAM2] \<rparr>)
   \<and> autoRemoveBackgroundPeople fallbackEnv ''u''
       (defaultOptions\<lparr>targetForegroundCount := Some 0\<rparr>) initialState =
     (Inr \<lparr> success = False, resultUrl = None, processingTime = 0,
            details = \<lparr> peopleDetected = 0, foregroundPeople = 0, backgroundPeople = 0,
                        modelUsed = ''none'', inpaintingModel = ''none'' \<rparr>,
            error = Some ''All inpainting models failed'' \<rparr>,
      \<lparr> world = (),
        calls = [SAM2, YOLOv8, SAM, StabilityInpainting, RunwayInpainting, FluxKontext] \<rparr>)
   \<and> autoRemoveBackgroundPeople unrefinedEnv ''u'' defaultOptions initialState =
     (Inr \<lparr> success = False, resultUrl = None, processingTime = 0,
            details = \<lparr> peopleDetected = 0, foregroundPeople = 0, backgroundPeople = 0,
                        modelUsed = ''none'', inpaintingModel = ''none'' \<rparr>,
            error = Some ''No people detected in the image'' \<rparr>,
      \<lparr> world = (), calls = [SAM2, YOLOv8, SAM] \<rparr>)"
proof -
  let ?d = "\<lparr> masks = [personMask 0 (300, 250, 400, 500) ''maskA'' (Some 0.9)],
              imageWidth = 1024, imageHeight = 1024 \<rparr>"
  have t: "1 \<le> optTarget defaultOptions" by (simp add: optTarget_def defaultOptions_def)
  have det: "detectionStage fallbackEnv ''u'' True initialState =
      (Inr ?d, \<lparr> world = (), calls = [SAM2, YOLOv8, SAM] \<rparr>)"
    using detectionStage_fallback [OF fallback_detection] by simp
  have a: "now fallbackEnv w = 0" "now primaryEnv w = 0" for w
    by (simp_all add: fallbackEnv_def primaryEnv_def constEnv_def)
  have first: "autoRemoveBackgroundPeople fallbackEnv ''u'' defaultOptions initialState =
     (Inr \<lparr> success = True, resultUrl = Some ''u'', processingTime = 0,
            details = \<lparr> peopleDetected = 1, foregroundPeople = 1, backgroundPeople = 0,
                        modelUsed = ''SAM-2/YOLO'', inpaintingModel = ''none'' \<rparr>,
            error = None \<rparr>,
      \<lparr> world = (), calls = [SAM2, YOLOv8, SAM] \<rparr>)"
    using short_circuit_result [of fallbackEnv "''u''" defaultOptions initialState ?d, OF _ _ t] det
    by (simp add: a)
  have second: "autoRemoveBackgroundPeople primaryEnv ''u'' defaultOptions initialState =
     (Inr \<lparr> success = True, resultUrl = Some ''u'', processingTime = 0,
            details = \<lparr> peopleDetected = 1, foregroundPeople = 1, backgroundPeople = 0,
                        modelUsed = ''SAM-2/YOLO'', inpaintingModel = ''none'' \<rparr>,
            error = None \<rparr>,
      \<lparr> world = (), calls = [SAM2] \<rparr>)"
    using short_circuit_result [OF primary_detection [of "''u''" "optFallback defaultOptions"] _ t]
    by (simp add: a)
  have inp: "inpaintVia m label used fallbackEnv iu mu p s =
      (Inl (Error (''Failed to inpaint with '' @ label @ '': offline'')),
       \<lparr> world = (), calls = calls s @ [m] \<rparr>)" for m label used iu mu p s
    by (simp add: inpaintVia_def replicate_run_def fallbackEnv_def constEnv_def message_of_def)
  have smart: "smartInpainting fallbackEnv ''u'' ''maskA'' pr None
                 \<lparr> world = (), calls = [SAM2, YOLOv8, SAM] \<rparr> =
      (Inl (Error ''All inpainting models failed''),
       \<lparr> world = (),
         calls = [SAM2, YOLOv8, SAM, StabilityInpainting, RunwayInpainting, FluxKontext] \<rparr>)" for pr
    by (simp add: smartInpainting_def models_def inpaintWithStabilityAI_def
          inpaintWithRunwayML_def inpaintWithFLUX_def inp)
  have zero: "backgroundMasks (separateForegroundBackground ?d 0) = masks ?d"
    using separate_zero by blast
  have third: "autoRemoveBackgroundPeople fallbackEnv ''u''
       (defaultOptions\<lparr>targetForegroundCount := Some 0\<rparr>) initialState =
     (Inr \<lparr> success = False, resultUrl = None, processingTime = 0,
            details = \<lparr> peopleDetected = 0, foregroundPeople = 0, backgroundPeople = 0,
                        modelUsed = ''none'', inpaintingModel = ''none'' \<rparr>,
            error = Some ''All inpainting models failed'' \<rparr>,
      \<lparr> world = (),
        calls = [SAM2, YOLOv8, SAM, StabilityInpainting, RunwayInpainting, FluxKontext] \<rparr>)"
    by (simp add: autoRemoveBackgroundPeople_def pipelineBody_def det zero smart a
          optTarget_def optFallback_def defaultOptions_def generateInpaintingMask_def
          mask_personMask failureResult_def message_of_def Let_def)
  have fourth: "autoRemoveBackgroundPeople unrefinedEnv ''u'' defaultOptions initialState =
     (Inr \<lparr> success = False, resultUrl = None, processingTime = 0,
            details = \<lparr> peopleDetected = 0, foregroundPeople = 0, backgroundPeople = 0,
                        modelUsed = ''none'', inpaintingModel = ''none'' \<rparr>,
            error = Some ''No people detected in the image'' \<rparr>,
      \<lparr> world = (), calls = [SAM2, YOLOv8, SAM] \<rparr>)"
    by (simp add: autoRemoveBackgroundPeople_def pipelineBody_def detectionStage_def
          detectPeopleInImage_def detectPeopleWithYOLO_def replicate_run_def unrefinedEnv_def
          constEnv_def onePersonItem_def initialState_def optFallback_def defaultOptions_def
          failureResult_def Let_def)
  show ?thesis using first second third fourth by (intro conjI)
qed

text \<open>
  C10. Called with \<open>maxRetries \<le> 0\<close>, \<open>autoRemoveBackgroundPeopleWithRetry\<close> never
  invokes the pipeline (no event, unchanged state) and returns a result without success,
  with the error \<^verbatim>\<open>"Max retries exceeded"\<close>, processing time \<open>0\<close>, all counts \<open>0\<close>, and
  \<^verbatim>\<open>"none"\<close> as \<open>modelUsed\<close> and as \<open>inpaintingModel\<close>.
\<close>

theorem retry_without_budget:
  assumes "maxRetries options = Some n" and "n \<le> 0"
  shows "autoRemoveBackgroundPeopleWithRetry env imageUrl options s =
           (\<lparr> success = False, resultUrl = None, processingTime = 0,
              details = \<lparr> peopleDetected = 0, foregroundPeople = 0, backgroundPeople = 0,
                          modelUsed = ''none'', inpaintingModel = ''none'' \<rparr>,
              error = Some ''Max retries exceeded'' \<rparr>, [], s)"
  using assms
  by (simp add: autoRemoveBackgroundPeopleWithRetry_def optMaxRetries_def Let_def
        attemptLoop_exhausted failureResult_def)

theorem retry_without_budget_witness:
  "autoRemoveBackgroundPeopleWithRetry offlineEnv ''u''
     (defaultOptions\<lparr>maxRetries := Some 0\<rparr>) initialState =
     (\<lparr> success = False, resultUrl = None, processingTime = 0,
        details = \<lparr> peopleDetected = 0, foregroundPeople = 0, backgroundPeople = 0,
                    modelUsed = ''none'', inpaintingModel = ''none'' \<rparr>,
        error = Some ''Max retries exceeded'' \<rparr>, [], initialState)"
  using retry_without_budget [of "defaultOptions\<lparr>maxRetries := Some 0\<rparr>" 0 offlineEnv "''u''"
          initialState]
  by simp

end
